theory Spec2Isabelle
  imports Complex_Main "HOL-Library.Monad_Syntax" "HOL-Library.Signed_Division"
begin

unbundle bit_operations_syntax

section \<open>Data model of \<open>collision_core.py\<close>\<close>

text \<open>
  Warp's \<open>float\<close> is modelled by \<open>real\<close>, Warp's \<open>int\<close> by \<open>int\<close> (the one place where
  the source does arithmetic on a stored integer, the contact counter, wraps at 32 bits,
  see \<open>wrap32\<close>). Vectors are datatypes with one constructor; \<open>wp.vec2i\<close> is a pair of
  integers, read with \<open>fst\<close> (element 0) and \<open>snd\<close> (element 1).
\<close>

datatype vec2 = Vec2 (v2_0: real) (v2_1: real)

datatype vec3 = Vec3 (v3_0: real) (v3_1: real) (v3_2: real)

datatype vec5 = Vec5 (v5_0: real) (v5_1: real) (v5_2: real) (v5_3: real) (v5_4: real)

datatype mat33 = Mat33 (row0: vec3) (row1: vec3) (row2: vec3)

type_synonym vec2i = "int \<times> int"

type_synonym mat63 = "vec3 list"

text \<open>Elementwise \<open>wp.max\<close>, \<open>wp.min\<close>, scalar multiple and sum of vectors.\<close>

definition max_vec3 :: "vec3 \<Rightarrow> vec3 \<Rightarrow> vec3" where
  "max_vec3 a b = Vec3 (max (v3_0 a) (v3_0 b)) (max (v3_1 a) (v3_1 b)) (max (v3_2 a) (v3_2 b))"

definition min_vec2 :: "vec2 \<Rightarrow> vec2 \<Rightarrow> vec2" where
  "min_vec2 a b = Vec2 (min (v2_0 a) (v2_0 b)) (min (v2_1 a) (v2_1 b))"

definition scale_vec2 :: "real \<Rightarrow> vec2 \<Rightarrow> vec2" where
  "scale_vec2 c a = Vec2 (c * v2_0 a) (c * v2_1 a)"

definition add_vec2 :: "vec2 \<Rightarrow> vec2 \<Rightarrow> vec2" where
  "add_vec2 a b = Vec2 (v2_0 a + v2_0 b) (v2_1 a + v2_1 b)"

definition scale_vec5 :: "real \<Rightarrow> vec5 \<Rightarrow> vec5" where
  "scale_vec5 c a = Vec5 (c * v5_0 a) (c * v5_1 a) (c * v5_2 a) (c * v5_3 a) (c * v5_4 a)"

definition add_vec5 :: "vec5 \<Rightarrow> vec5 \<Rightarrow> vec5" where
  "add_vec5 a b =
     Vec5 (v5_0 a + v5_0 b) (v5_1 a + v5_1 b) (v5_2 a + v5_2 b) (v5_3 a + v5_3 b)
          (v5_4 a + v5_4 b)"

subsection \<open>Arrays\<close>

text \<open>
  A \<open>wp.array\<close> that the core only reads is a list, a \<open>wp.array2d\<close> a list of rows.
  A read outside the array is undefined in a Warp kernel; the model returns \<open>None\<close>
  for it, and a function whose result depends on such a read returns \<open>None\<close>.
\<close>

definition aget :: "'a list \<Rightarrow> int \<Rightarrow> 'a option" where
  "aget a i = (if 0 \<le> i \<and> i < int (length a) then Some (a ! nat i) else None)"

definition aget2 :: "'a list list \<Rightarrow> int \<Rightarrow> int \<Rightarrow> 'a option" where
  "aget2 a i j = Option.bind (aget a i) (\<lambda>r. aget r j)"

definition shape0 :: "'a list list \<Rightarrow> int" where
  "shape0 a = int (length a)"

text \<open>
  The operator \<open>%\<close> of a kernel is the remainder of C, which truncates; \<open>wp.where\<close>
  evaluates both operands and selects one, so a read outside the array in the operand
  that is not selected has no effect on the result.
\<close>

definition wp_mod :: "int \<Rightarrow> int \<Rightarrow> int" where
  "wp_mod a b = a smod b"

definition wp_where :: "bool \<Rightarrow> 'a \<Rightarrow> 'a \<Rightarrow> 'a" where
  "wp_where c a b = (if c then a else b)"

subsection \<open>The Geom view\<close>

record Geom =
  pos :: vec3
  rot :: mat33
  normal :: vec3
  size_g :: vec3
  margin :: real
  hfprism :: mat63
  vertadr :: int
  vertnum :: int
  vert :: "vec3 list"
  graphadr :: int
  graph :: "int list"
  mesh_polynum :: int
  mesh_polyadr :: int
  mesh_polynormal :: "vec3 list"
  mesh_polyvertadr :: "int list"
  mesh_polyvertnum :: "int list"
  mesh_polyvert :: "int list"
  mesh_polymapadr :: "int list"
  mesh_polymapnum :: "int list"
  mesh_polymap :: "int list"
  index :: int

text \<open>
  The field \<open>size\<close> of the source is \<open>size_g\<close> here. \<open>Geom()\<close>: a Warp struct
  instance starts with every field zero and every array empty.
\<close>

definition zero_vec3 :: vec3 where
  "zero_vec3 = Vec3 0 0 0"

definition Geom_init :: Geom where
  "Geom_init = \<lparr> pos = zero_vec3, rot = Mat33 zero_vec3 zero_vec3 zero_vec3,
     normal = zero_vec3, size_g = zero_vec3, margin = 0,
     hfprism = replicate 6 zero_vec3,
     vertadr = 0, vertnum = 0, vert = [], graphadr = 0, graph = [],
     mesh_polynum = 0, mesh_polyadr = 0, mesh_polynormal = [], mesh_polyvertadr = [],
     mesh_polyvertnum = [], mesh_polyvert = [], mesh_polymapadr = [],
     mesh_polymapnum = [], mesh_polymap = [], index = 0 \<rparr>"

subsection \<open>The model and data arrays the core reads\<close>

text \<open>
  The arrays that the three functions take one by one are collected in two records,
  under the names of the parameters; the nine mesh tables whose names are also fields of
  \<open>Geom\<close> carry the suffix \<open>_tab\<close>, as do the other mesh tables.
\<close>

record Model =
  geom_type :: "int list"
  geom_dataid :: "int list"
  geom_size :: "vec3 list list"
  mesh_vertadr_tab :: "int list"
  mesh_vertnum_tab :: "int list"
  mesh_graphadr_tab :: "int list"
  mesh_vert_tab :: "vec3 list"
  mesh_graph_tab :: "int list"
  mesh_polynum_tab :: "int list"
  mesh_polyadr_tab :: "int list"
  mesh_polynormal_tab :: "vec3 list"
  mesh_polyvertadr_tab :: "int list"
  mesh_polyvertnum_tab :: "int list"
  mesh_polyvert_tab :: "int list"
  mesh_polymapadr_tab :: "int list"
  mesh_polymapnum_tab :: "int list"
  mesh_polymap_tab :: "int list"
  geom_condim :: "int list"
  geom_priority :: "int list"
  geom_solmix :: "real list list"
  geom_solref :: "vec2 list list"
  geom_solimp :: "vec5 list list"
  geom_friction :: "vec3 list list"
  geom_margin :: "real list list"
  geom_gap :: "real list list"
  pair_dim :: "int list"
  pair_solref :: "vec2 list list"
  pair_solreffriction :: "vec2 list list"
  pair_solimp :: "vec5 list list"
  pair_margin :: "real list list"
  pair_gap :: "real list list"
  pair_friction :: "vec5 list list"

record Data =
  geom_xpos_in :: "vec3 list list"
  geom_xmat_in :: "mat33 list list"

section \<open>\<open>geom_collision_pair\<close>\<close>

text \<open>
  Lines 112 to 128 and 130 to 146 of the source are the same text for \<open>geom1\<close> and
  \<open>geom2\<close>: the mesh fields of a view whose geometry has the type \<open>GeomType.MESH\<close>.
  \<open>GeomType\<close> is declared in \<open>types.py\<close>; the value of \<open>MESH\<close> is a parameter.
\<close>

definition mesh_fields :: "int \<Rightarrow> Model \<Rightarrow> int \<Rightarrow> int \<Rightarrow> Geom \<Rightarrow> Geom option" where
  "mesh_fields MESH m geom_type1 g1 geom1 =
     (if geom_type1 = MESH then do {
        dataid \<leftarrow> aget (geom_dataid m) g1;
        va \<leftarrow> wp_where (dataid \<ge> 0) (aget (mesh_vertadr_tab m) dataid) (Some (- 1));
        vn \<leftarrow> wp_where (dataid \<ge> 0) (aget (mesh_vertnum_tab m) dataid) (Some (- 1));
        ga \<leftarrow> wp_where (dataid \<ge> 0) (aget (mesh_graphadr_tab m) dataid) (Some (- 1));
        pn \<leftarrow> wp_where (dataid \<ge> 0) (aget (mesh_polynum_tab m) dataid) (Some (- 1));
        pa \<leftarrow> wp_where (dataid \<ge> 0) (aget (mesh_polyadr_tab m) dataid) (Some (- 1));
        Some (geom1\<lparr> vertadr := va, vertnum := vn, graphadr := ga,
          mesh_polynum := pn, mesh_polyadr := pa,
          vert := mesh_vert_tab m, graph := mesh_graph_tab m,
          mesh_polynormal := mesh_polynormal_tab m,
          mesh_polyvertadr := mesh_polyvertadr_tab m,
          mesh_polyvertnum := mesh_polyvertnum_tab m,
          mesh_polyvert := mesh_polyvert_tab m,
          mesh_polymapadr := mesh_polymapadr_tab m,
          mesh_polymapnum := mesh_polymapnum_tab m,
          mesh_polymap := mesh_polymap_tab m \<rparr>)
      } else Some geom1)"

text \<open>Lines 100 to 104 (and 106 to 110): pose, size and the derived normal of one view.\<close>

definition pose_fields :: "Model \<Rightarrow> Data \<Rightarrow> int \<Rightarrow> int \<Rightarrow> Geom \<Rightarrow> Geom option" where
  "pose_fields m d worldid g1 geom1 = do {
     p \<leftarrow> aget2 (geom_xpos_in d) worldid g1;
     r \<leftarrow> aget2 (geom_xmat_in d) worldid g1;
     s \<leftarrow> aget2 (geom_size m) (wp_mod worldid (shape0 (geom_size m))) g1;
     Some (geom1\<lparr> pos := p, rot := r, size_g := s,
       normal := Vec3 (v3_2 (row0 r)) (v3_2 (row1 r)) (v3_2 (row2 r)) \<rparr>)
   }"

definition geom_collision_pair ::
  "int \<Rightarrow> Model \<Rightarrow> Data \<Rightarrow> vec2i \<Rightarrow> int \<Rightarrow> (Geom \<times> Geom) option" where
  "geom_collision_pair MESH m d geoms worldid = do {
     let geom1 = Geom_init;
     let geom2 = Geom_init;
     let g1 = fst geoms;
     let g2 = snd geoms;
     geom_type1 \<leftarrow> aget (geom_type m) g1;
     geom_type2 \<leftarrow> aget (geom_type m) g2;
     geom1 \<leftarrow> pose_fields m d worldid g1 geom1;
     geom2 \<leftarrow> pose_fields m d worldid g2 geom2;
     geom1 \<leftarrow> mesh_fields MESH m geom_type1 g1 geom1;
     geom2 \<leftarrow> mesh_fields MESH m geom_type2 g2 geom2;
     let geom1 = geom1\<lparr> index := - 1, margin := 0 \<rparr>;
     let geom2 = geom2\<lparr> index := - 1, margin := 0 \<rparr>;
     Some (geom1, geom2)
   }"

section \<open>\<open>write_contact\<close>\<close>

text \<open>
  The output arrays are shared and written by index: each is a store from indices to
  values. \<open>nacon_out\<close> is the one-element counter array; the model holds its element 0.
\<close>

record Contact_out =
  contact_dist_out :: "int \<Rightarrow> real"
  contact_pos_out :: "int \<Rightarrow> vec3"
  contact_frame_out :: "int \<Rightarrow> mat33"
  contact_includemargin_out :: "int \<Rightarrow> real"
  contact_friction_out :: "int \<Rightarrow> vec5"
  contact_solref_out :: "int \<Rightarrow> vec2"
  contact_solreffriction_out :: "int \<Rightarrow> vec2"
  contact_solimp_out :: "int \<Rightarrow> vec5"
  contact_dim_out :: "int \<Rightarrow> int"
  contact_geom_out :: "int \<Rightarrow> vec2i"
  contact_worldid_out :: "int \<Rightarrow> int"
  contact_type_out :: "int \<Rightarrow> int"
  contact_geomcollisionid_out :: "int \<Rightarrow> int"
  nacon_out :: int

text \<open>
  The counter is a 32-bit signed integer: \<open>wp.atomic_add\<close> stores the sum wrapped to
  32 bits and returns the value it found. Calls are modelled one after the other, in the
  order in which their atomic additions take effect.
\<close>

definition wrap32 :: "int \<Rightarrow> int" where
  "wrap32 x = (x + 2147483648) mod 4294967296 - 2147483648"

definition atomic_add :: "int \<Rightarrow> int \<Rightarrow> int \<times> int" where
  "atomic_add stored v = (stored, wrap32 (stored + v))"

text \<open>
  \<open>ContactType\<close> is declared in \<open>types.py\<close>; the values of its flags \<open>CONSTRAINT\<close> and
  \<open>SENSOR\<close> are parameters. Lines 202 to 208: the type of the contact.
\<close>

definition classify :: "int \<Rightarrow> int \<Rightarrow> vec2i \<Rightarrow> bool \<Rightarrow> int" where
  "classify CONSTRAINT SENSOR pairid_in active =
     (let contact_type = 0;
          contact_type = (if fst pairid_in \<ge> - 1 \<and> active
                          then contact_type OR CONSTRAINT else contact_type);
          contact_type = (if snd pairid_in \<ge> 0
                          then contact_type OR SENSOR else contact_type)
      in contact_type)"

text \<open>
  The result of \<open>write_contact\<close> is the returned integer and the arrays after the call.
  The parameter \<open>id_\<close> of the source is \<open>id_in\<close> here.
\<close>

definition write_contact ::
  "int \<Rightarrow> int \<Rightarrow> int \<Rightarrow> int \<Rightarrow> real \<Rightarrow> vec3 \<Rightarrow> mat33 \<Rightarrow> real \<Rightarrow> real \<Rightarrow> int \<Rightarrow> vec5 \<Rightarrow> vec2 \<Rightarrow>
   vec2 \<Rightarrow> vec5 \<Rightarrow> vec2i \<Rightarrow> vec2i \<Rightarrow> int \<Rightarrow> Contact_out \<Rightarrow> int \<times> Contact_out" where
  "write_contact CONSTRAINT SENSOR naconmax_in id_in dist_in pos_in frame_in margin_in gap_in
     condim_in friction_in solref_in solreffriction_in solimp_in geoms_in pairid_in worldid_in
     out =
     (let active = dist_in < margin_in in
      if (fst pairid_in = - 2 \<or> \<not> active) \<and> snd pairid_in = - 1 then (0, out)
      else
        let contact_type = classify CONSTRAINT SENSOR pairid_in active;
            (cid, stored) = atomic_add (nacon_out out) 1;
            out = out\<lparr> nacon_out := stored \<rparr>
        in
          if cid < naconmax_in then
            (let includemargin = margin_in - gap_in in
             (of_bool active,
              out\<lparr> contact_dist_out := (contact_dist_out out)(cid := dist_in),
                   contact_pos_out := (contact_pos_out out)(cid := pos_in),
                   contact_frame_out := (contact_frame_out out)(cid := frame_in),
                   contact_geom_out := (contact_geom_out out)(cid := geoms_in),
                   contact_worldid_out := (contact_worldid_out out)(cid := worldid_in),
                   contact_includemargin_out :=
                     (contact_includemargin_out out)(cid := includemargin),
                   contact_dim_out := (contact_dim_out out)(cid := condim_in),
                   contact_friction_out := (contact_friction_out out)(cid := friction_in),
                   contact_solref_out := (contact_solref_out out)(cid := solref_in),
                   contact_solreffriction_out :=
                     (contact_solreffriction_out out)(cid := solreffriction_in),
                   contact_solimp_out := (contact_solimp_out out)(cid := solimp_in),
                   contact_type_out := (contact_type_out out)(cid := contact_type),
                   contact_geomcollisionid_out :=
                     (contact_geomcollisionid_out out)(cid := id_in) \<rparr>))
          else (0, out))"

section \<open>\<open>contact_params\<close>\<close>

text \<open>
  \<open>safe_div\<close> is a function of \<open>math.py\<close> and \<open>MJ_MINVAL\<close>, \<open>MJ_MINMU\<close> are
  constants of \<open>types.py\<close>; they are parameters of the model.
\<close>

text \<open>Lines 266 to 272: the explicit pair override.\<close>

definition pair_params ::
  "Model \<Rightarrow> int \<Rightarrow> int \<Rightarrow> (real \<times> real \<times> int \<times> vec5 \<times> vec2 \<times> vec2 \<times> vec5) option" where
  "pair_params m worldid pairid = do {
     margin \<leftarrow> aget2 (pair_margin m) worldid pairid;
     gap \<leftarrow> aget2 (pair_gap m) worldid pairid;
     condim \<leftarrow> aget (pair_dim m) pairid;
     friction \<leftarrow> aget2 (pair_friction m) worldid pairid;
     solref \<leftarrow> aget2 (pair_solref m) worldid pairid;
     solreffriction \<leftarrow> aget2 (pair_solreffriction m) worldid pairid;
     solimp \<leftarrow> aget2 (pair_solimp m) worldid pairid;
     Some (margin, gap, condim, friction, solref, solreffriction, solimp)
   }"

text \<open>Lines 302 to 305: the mix weight of two geometries of equal priority.\<close>

definition solmix_weight :: "(real \<Rightarrow> real \<Rightarrow> real) \<Rightarrow> real \<Rightarrow> real \<Rightarrow> real \<Rightarrow> real" where
  "solmix_weight safe_div MJ_MINVAL solmix1 solmix2 =
     (let mix = safe_div solmix1 (solmix1 + solmix2);
          mix = wp_where (solmix1 < MJ_MINVAL \<and> solmix2 < MJ_MINVAL) (1 / 2) mix;
          mix = wp_where (solmix1 < MJ_MINVAL \<and> solmix2 \<ge> MJ_MINVAL) 0 mix;
          mix = wp_where (solmix1 \<ge> MJ_MINVAL \<and> solmix2 < MJ_MINVAL) 1 mix
      in mix)"

text \<open>Lines 293 to 307: mix weight, condim and friction triple by priority.\<close>

definition priority_mix ::
  "(real \<Rightarrow> real \<Rightarrow> real) \<Rightarrow> real \<Rightarrow> Model \<Rightarrow> int \<Rightarrow> int \<Rightarrow> int \<Rightarrow> int \<Rightarrow> int \<Rightarrow> int \<Rightarrow> int \<Rightarrow>
   real \<Rightarrow> real \<Rightarrow> (real \<times> int \<times> vec3) option" where
  "priority_mix safe_div MJ_MINVAL m friction_id g1 g2 p1 p2 condim1 condim2 solmix1 solmix2 =
     (if p1 > p2 then do {
        f1 \<leftarrow> aget2 (geom_friction m) friction_id g1;
        Some (1, condim1, f1)
      } else if p2 > p1 then do {
        f2 \<leftarrow> aget2 (geom_friction m) friction_id g2;
        Some (0, condim2, f2)
      } else do {
        f1 \<leftarrow> aget2 (geom_friction m) friction_id g1;
        f2 \<leftarrow> aget2 (geom_friction m) friction_id g2;
        Some (solmix_weight safe_div MJ_MINVAL solmix1 solmix2, max condim1 condim2,
              max_vec3 f1 f2)
      })"

text \<open>Lines 309 to 315: the friction triple on five axes.\<close>

definition expand_friction :: "vec3 \<Rightarrow> vec5" where
  "expand_friction max_geom_friction =
     Vec5 (v3_0 max_geom_friction) (v3_0 max_geom_friction) (v3_1 max_geom_friction)
          (v3_2 max_geom_friction) (v3_2 max_geom_friction)"

text \<open>Lines 274 to 326: the parameters mixed from the two geometries.\<close>

definition geom_params ::
  "(real \<Rightarrow> real \<Rightarrow> real) \<Rightarrow> real \<Rightarrow> Model \<Rightarrow> int \<Rightarrow> vec2i \<Rightarrow>
   (real \<times> real \<times> int \<times> vec5 \<times> vec2 \<times> vec2 \<times> vec5) option" where
  "geom_params safe_div MJ_MINVAL m worldid geoms = do {
     let g1 = fst geoms;
     let g2 = snd geoms;
     let solmix_id = wp_mod worldid (shape0 (geom_solmix m));
     let friction_id = wp_mod worldid (shape0 (geom_friction m));
     let solref_id = wp_mod worldid (shape0 (geom_solref m));
     let solimp_id = wp_mod worldid (shape0 (geom_solimp m));
     let margin_id = wp_mod worldid (shape0 (geom_margin m));
     let gap_id = wp_mod worldid (shape0 (geom_gap m));
     solmix1 \<leftarrow> aget2 (geom_solmix m) solmix_id g1;
     solmix2 \<leftarrow> aget2 (geom_solmix m) solmix_id g2;
     condim1 \<leftarrow> aget (geom_condim m) g1;
     condim2 \<leftarrow> aget (geom_condim m) g2;
     p1 \<leftarrow> aget (geom_priority m) g1;
     p2 \<leftarrow> aget (geom_priority m) g2;
     mcf \<leftarrow> priority_mix safe_div MJ_MINVAL m friction_id g1 g2 p1 p2 condim1 condim2
              solmix1 solmix2;
     let mix = fst mcf;
     let condim = fst (snd mcf);
     let max_geom_friction = snd (snd mcf);
     let friction = expand_friction max_geom_friction;
     solref1 \<leftarrow> aget2 (geom_solref m) solref_id g1;
     solref2 \<leftarrow> aget2 (geom_solref m) solref_id g2;
     let solref = (if v2_0 solref1 > 0 \<and> v2_0 solref2 > 0
                   then add_vec2 (scale_vec2 mix solref1) (scale_vec2 (1 - mix) solref2)
                   else min_vec2 solref1 solref2);
     let solreffriction = Vec2 0 0;
     solimp1 \<leftarrow> aget2 (geom_solimp m) solimp_id g1;
     solimp2 \<leftarrow> aget2 (geom_solimp m) solimp_id g2;
     let solimp = add_vec5 (scale_vec5 mix solimp1) (scale_vec5 (1 - mix) solimp2);
     margin1 \<leftarrow> aget2 (geom_margin m) margin_id g1;
     margin2 \<leftarrow> aget2 (geom_margin m) margin_id g2;
     gap1 \<leftarrow> aget2 (geom_gap m) gap_id g1;
     gap2 \<leftarrow> aget2 (geom_gap m) gap_id g2;
     Some (margin1 + margin2, gap1 + gap2, condim, friction, solref, solreffriction, solimp)
   }"

text \<open>Lines 328 to 334: every friction component is at least \<open>MJ_MINMU\<close>.\<close>

definition floor_friction :: "real \<Rightarrow> vec5 \<Rightarrow> vec5" where
  "floor_friction MJ_MINMU friction =
     Vec5 (max MJ_MINMU (v5_0 friction)) (max MJ_MINMU (v5_1 friction))
          (max MJ_MINMU (v5_2 friction)) (max MJ_MINMU (v5_3 friction))
          (max MJ_MINMU (v5_4 friction))"

definition contact_params ::
  "(real \<Rightarrow> real \<Rightarrow> real) \<Rightarrow> real \<Rightarrow> real \<Rightarrow> Model \<Rightarrow> vec2i list \<Rightarrow> vec2i list \<Rightarrow> int \<Rightarrow> int \<Rightarrow>
   (vec2i \<times> real \<times> real \<times> int \<times> vec5 \<times> vec2 \<times> vec2 \<times> vec5) option" where
  "contact_params safe_div MJ_MINVAL MJ_MINMU m collision_pair_in collision_pairid_in cid
     worldid = do {
     geoms \<leftarrow> aget collision_pair_in cid;
     pairid2 \<leftarrow> aget collision_pairid_in cid;
     let pairid = fst pairid2;
     (margin, gap, condim, friction, solref, solreffriction, solimp) \<leftarrow>
       (if pairid > - 1 then pair_params m worldid pairid
        else geom_params safe_div MJ_MINVAL m worldid geoms);
     let friction = floor_friction MJ_MINMU friction;
     Some (geoms, margin, gap, condim, friction, solref, solreffriction, solimp)
   }"

section \<open>Committing a sequence of contacts\<close>

text \<open>
  The arguments of one call of \<open>write_contact\<close>, and the calls of a whole step one
  after the other on the shared arrays.
\<close>

record Candidate =
  c_id :: int
  c_dist :: real
  c_pos :: vec3
  c_frame :: mat33
  c_margin :: real
  c_gap :: real
  c_condim :: int
  c_friction :: vec5
  c_solref :: vec2
  c_solreffriction :: vec2
  c_solimp :: vec5
  c_geoms :: vec2i
  c_pairid :: vec2i
  c_worldid :: int

definition commit :: "int \<Rightarrow> int \<Rightarrow> int \<Rightarrow> Candidate \<Rightarrow> Contact_out \<Rightarrow> int \<times> Contact_out" where
  "commit CONSTRAINT SENSOR naconmax_in c out =
     write_contact CONSTRAINT SENSOR naconmax_in (c_id c) (c_dist c) (c_pos c) (c_frame c)
       (c_margin c) (c_gap c) (c_condim c) (c_friction c) (c_solref c) (c_solreffriction c)
       (c_solimp c) (c_geoms c) (c_pairid c) (c_worldid c) out"

fun commit_all :: "int \<Rightarrow> int \<Rightarrow> int \<Rightarrow> Candidate list \<Rightarrow> Contact_out \<Rightarrow> Contact_out" where
  "commit_all CONSTRAINT SENSOR naconmax_in [] out = out"
| "commit_all CONSTRAINT SENSOR naconmax_in (c # cs) out =
     commit_all CONSTRAINT SENSOR naconmax_in cs (snd (commit CONSTRAINT SENSOR naconmax_in c out))"

text \<open>The early return of line 199, as a condition on the arguments.\<close>

definition dropped :: "vec2i \<Rightarrow> real \<Rightarrow> real \<Rightarrow> bool" where
  "dropped pairid_in dist_in margin_in =
     ((fst pairid_in = - 2 \<or> dist_in \<ge> margin_in) \<and> snd pairid_in = - 1)"

text \<open>What the thirteen output arrays hold at one index, and the record of a candidate.\<close>

type_synonym contact_record =
  "real \<times> vec3 \<times> mat33 \<times> real \<times> vec5 \<times> vec2 \<times> vec2 \<times> vec5 \<times> int \<times> vec2i \<times> int \<times> int \<times> int"

definition slot :: "Contact_out \<Rightarrow> int \<Rightarrow> contact_record" where
  "slot out i =
     (contact_dist_out out i, contact_pos_out out i, contact_frame_out out i,
      contact_includemargin_out out i, contact_friction_out out i, contact_solref_out out i,
      contact_solreffriction_out out i, contact_solimp_out out i, contact_dim_out out i,
      contact_geom_out out i, contact_worldid_out out i, contact_type_out out i,
      contact_geomcollisionid_out out i)"

definition record_of :: "int \<Rightarrow> int \<Rightarrow> Candidate \<Rightarrow> contact_record" where
  "record_of CONSTRAINT SENSOR c =
     (c_dist c, c_pos c, c_frame c, c_margin c - c_gap c, c_friction c, c_solref c,
      c_solreffriction c, c_solimp c, c_condim c, c_geoms c, c_worldid c,
      classify CONSTRAINT SENSOR (c_pairid c) (c_dist c < c_margin c), c_id c)"

text \<open>A flag is set in a type field when the bits of the flag are all there.\<close>

definition has_flag :: "int \<Rightarrow> int \<Rightarrow> bool" where
  "has_flag contact_type flag = (contact_type AND flag = flag)"

section \<open>What the properties below say about a view\<close>

text \<open>
  The five mesh address and count fields of a view of a mesh whose data id is \<open>dataid\<close>:
  the sentinel when the data id is negative, the entries of the mesh tables otherwise.
\<close>

definition mesh_view :: "Model \<Rightarrow> int \<Rightarrow> Geom \<Rightarrow> bool" where
  "mesh_view m dataid geom =
     (if dataid < 0
      then vertadr geom = - 1 \<and> vertnum geom = - 1 \<and> graphadr geom = - 1 \<and>
           mesh_polynum geom = - 1 \<and> mesh_polyadr geom = - 1
      else aget (mesh_vertadr_tab m) dataid = Some (vertadr geom) \<and>
           aget (mesh_vertnum_tab m) dataid = Some (vertnum geom) \<and>
           aget (mesh_graphadr_tab m) dataid = Some (graphadr geom) \<and>
           aget (mesh_polynum_tab m) dataid = Some (mesh_polynum geom) \<and>
           aget (mesh_polyadr_tab m) dataid = Some (mesh_polyadr geom))"

definition zero_view :: "Geom \<Rightarrow> bool" where
  "zero_view geom =
     (vertadr geom = 0 \<and> vertnum geom = 0 \<and> graphadr geom = 0 \<and>
      mesh_polynum geom = 0 \<and> mesh_polyadr geom = 0)"

section \<open>Example inputs\<close>

text \<open>
  A model of three geometries, a sphere and two meshes, the second mesh without data;
  every model array that can vary by world has a single row. The constants of
  \<open>types.py\<close> take the values \<open>MESH = 7\<close>, \<open>CONSTRAINT = 1\<close>, \<open>SENSOR = 2\<close>,
  \<open>MJ_MINVAL = 1 / 10^15\<close> and \<open>MJ_MINMU = 1 / 10^5\<close> in the examples, and \<open>safe_div\<close>
  is the quotient.
\<close>

definition ex_model :: Model where
  "ex_model = \<lparr> geom_type = [2, 7, 7], geom_dataid = [- 1, 0, - 1],
     geom_size = [ [Vec3 1 0 0, Vec3 2 2 2, Vec3 3 3 3] ],
     mesh_vertadr_tab = [0], mesh_vertnum_tab = [8], mesh_graphadr_tab = [0],
     mesh_vert_tab = [], mesh_graph_tab = [],
     mesh_polynum_tab = [6], mesh_polyadr_tab = [0], mesh_polynormal_tab = [],
     mesh_polyvertadr_tab = [], mesh_polyvertnum_tab = [], mesh_polyvert_tab = [],
     mesh_polymapadr_tab = [], mesh_polymapnum_tab = [], mesh_polymap_tab = [],
     geom_condim = [1, 3, 4], geom_priority = [1, 0, 0],
     geom_solmix = [ [1, 1, 3] ],
     geom_solref = [ [Vec2 (1 / 50) 1, Vec2 (1 / 25) 1, Vec2 0 (- 10)] ],
     geom_solimp = [ [Vec5 1 1 1 1 2, Vec5 0 0 0 0 2, Vec5 4 4 4 4 2] ],
     geom_friction = [ [Vec3 0 0 0, Vec3 1 (1 / 200) (1 / 10000), Vec3 (1 / 2) (1 / 100) 0] ],
     geom_margin = [ [0, 1 / 100, 1 / 50] ], geom_gap = [ [0, 0, 1 / 100] ],
     pair_dim = [3],
     pair_solref = [ [Vec2 (1 / 50) 1] ], pair_solreffriction = [ [Vec2 0 0] ],
     pair_solimp = [ [Vec5 1 1 1 1 2] ], pair_margin = [ [1 / 10] ], pair_gap = [ [0] ],
     pair_friction = [ [Vec5 0 1 0 1 0] ] \<rparr>"

definition ident33 :: mat33 where
  "ident33 = Mat33 (Vec3 1 0 0) (Vec3 0 1 0) (Vec3 0 0 1)"

text \<open>The poses of two worlds, and pose arrays of a single row.\<close>

definition ex_data :: Data where
  "ex_data = \<lparr> geom_xpos_in = [ [Vec3 0 0 0, Vec3 1 0 0, Vec3 2 0 0],
                                [Vec3 0 0 5, Vec3 1 0 5, Vec3 2 0 5] ],
               geom_xmat_in = [ [ident33, ident33, ident33], [ident33, ident33, ident33] ] \<rparr>"

definition ex_data_single :: Data where
  "ex_data_single = \<lparr> geom_xpos_in = [ [Vec3 0 0 0, Vec3 1 0 0, Vec3 2 0 0] ],
                      geom_xmat_in = [ [ident33, ident33, ident33] ] \<rparr>"

text \<open>
  Three candidates of the broadphase: the sphere against the first mesh, the two meshes,
  and the sphere against the first mesh under the pair override 0.
\<close>

definition ex_pairs :: "vec2i list" where
  "ex_pairs = [(0, 1), (1, 2), (0, 1)]"

definition ex_pairids :: "vec2i list" where
  "ex_pairids = [(- 1, - 1), (- 1, - 1), (0, - 1)]"

definition ex_safe_div :: "real \<Rightarrow> real \<Rightarrow> real" where
  "ex_safe_div x y = x / y"

definition ex_minval :: real where
  "ex_minval = 1 / 1000000000000000"

definition ex_minmu :: real where
  "ex_minmu = 1 / 100000"

text \<open>Output arrays that hold zero everywhere, with the counter at zero.\<close>

definition ex_out :: Contact_out where
  "ex_out = \<lparr> contact_dist_out = (\<lambda>i. 0), contact_pos_out = (\<lambda>i. zero_vec3),
     contact_frame_out = (\<lambda>i. Mat33 zero_vec3 zero_vec3 zero_vec3),
     contact_includemargin_out = (\<lambda>i. 0), contact_friction_out = (\<lambda>i. Vec5 0 0 0 0 0),
     contact_solref_out = (\<lambda>i. Vec2 0 0), contact_solreffriction_out = (\<lambda>i. Vec2 0 0),
     contact_solimp_out = (\<lambda>i. Vec5 0 0 0 0 0), contact_dim_out = (\<lambda>i. 0),
     contact_geom_out = (\<lambda>i. (0, 0)), contact_worldid_out = (\<lambda>i. 0),
     contact_type_out = (\<lambda>i. 0), contact_geomcollisionid_out = (\<lambda>i. 0),
     nacon_out = 0 \<rparr>"

text \<open>
  A candidate with the pair id \<open>pairid\<close> at the distance \<open>d\<close>, with margin \<open>1 / 10\<close>
  and gap \<open>1 / 100\<close>.
\<close>

definition ex_candidate :: "int \<Rightarrow> vec2i \<Rightarrow> real \<Rightarrow> Candidate" where
  "ex_candidate i pairid d =
     \<lparr> c_id = i, c_dist = d, c_pos = Vec3 0 0 1, c_frame = ident33, c_margin = 1 / 10,
       c_gap = 1 / 100, c_condim = 3, c_friction = Vec5 1 1 (1 / 200) (1 / 10000) (1 / 10000),
       c_solref = Vec2 (1 / 50) 1, c_solreffriction = Vec2 0 0, c_solimp = Vec5 1 1 1 1 2,
       c_geoms = (0, 1), c_pairid = pairid, c_worldid = 0 \<rparr>"

text \<open>
  The same three geometries with two rows in every model array that can vary by world,
  the rows differing, and with the priorities 0, 1, 1; three candidates without a pair
  override, the third with the geometries of the first in the other order.
\<close>

definition ex_model_b :: Model where
  "ex_model_b = ex_model \<lparr> geom_priority := [0, 1, 1],
     geom_size := [ [Vec3 1 0 0, Vec3 2 2 2, Vec3 3 3 3],
                    [Vec3 4 0 0, Vec3 5 5 5, Vec3 6 6 6] ],
     geom_solmix := [ [1, 1, 3], [2, 1, 3] ],
     geom_solref := [ [Vec2 (1 / 50) 1, Vec2 0 3, Vec2 (1 / 25) 1],
                      [Vec2 (1 / 50) 1, Vec2 (1 / 25) 2, Vec2 (1 / 10) 1] ],
     geom_solimp := [ [Vec5 1 1 1 1 2, Vec5 0 0 0 0 2, Vec5 4 4 4 4 2],
                      [Vec5 1 1 1 1 2, Vec5 (9 / 10) (19 / 20) (1 / 1000) (1 / 2) 2,
                       Vec5 (1 / 2) (3 / 4) (1 / 100) (1 / 2) 6] ],
     geom_friction := [ [Vec3 0 0 0, Vec3 1 (1 / 200) (1 / 10000), Vec3 (1 / 2) (1 / 100) 0],
                        [Vec3 (3 / 10) (1 / 1000) (1 / 1000), Vec3 (7 / 10) (1 / 200) 0,
                         Vec3 (1 / 2) (1 / 100) (1 / 10000)] ],
     geom_margin := [ [0, 1 / 100, 1 / 50], [1 / 10, 1 / 5, 3 / 10] ],
     geom_gap := [ [0, 0, 1 / 100], [1 / 100, 1 / 50, 1 / 25] ] \<rparr>"

definition ex_pairs_b :: "vec2i list" where
  "ex_pairs_b = [(0, 1), (1, 2), (1, 0)]"

definition ex_pairids_b :: "vec2i list" where
  "ex_pairids_b = [(- 1, - 1), (- 1, - 1), (- 1, - 1)]"

section \<open>Properties of \<open>geom_collision_pair\<close>\<close>

lemma pose_fields_mesh:
  "pose_fields m d w g geom = Some geom' \<Longrightarrow>
     vertadr geom' = vertadr geom \<and> vertnum geom' = vertnum geom \<and>
     graphadr geom' = graphadr geom \<and> mesh_polynum geom' = mesh_polynum geom \<and>
     mesh_polyadr geom' = mesh_polyadr geom"
  by (auto simp: pose_fields_def split: Option.bind_splits)

lemma pose_fields_reads:
  "pose_fields m d w g geom = Some geom' \<Longrightarrow>
     aget2 (geom_xpos_in d) w g = Some (pos geom') \<and>
     aget2 (geom_xmat_in d) w g = Some (rot geom') \<and>
     aget2 (geom_size m) (wp_mod w (shape0 (geom_size m))) g = Some (size_g geom')"
  by (auto simp: pose_fields_def split: Option.bind_splits)

lemma mesh_fields_other:
  "t \<noteq> MESH \<Longrightarrow> mesh_fields MESH m t g geom = Some geom' \<Longrightarrow> geom' = geom"
  by (simp add: mesh_fields_def)

lemma mesh_fields_pose:
  "mesh_fields MESH m t g geom = Some geom' \<Longrightarrow>
     pos geom' = pos geom \<and> rot geom' = rot geom \<and> size_g geom' = size_g geom"
  by (auto simp: mesh_fields_def split: Option.bind_splits if_splits)

lemma mesh_fields_mesh:
  "mesh_fields MESH m MESH g geom = Some geom' \<Longrightarrow>
   aget (geom_dataid m) g = Some dataid \<Longrightarrow> mesh_view m dataid geom'"
  by (auto simp: mesh_fields_def mesh_view_def wp_where_def split: Option.bind_splits if_splits)

lemma geom_collision_pair_Some:
  "geom_collision_pair MESH m d geoms w = Some (geom1, geom2) \<Longrightarrow>
   \<exists>t1 t2 a1 a2 b1 b2.
     aget (geom_type m) (fst geoms) = Some t1 \<and> aget (geom_type m) (snd geoms) = Some t2 \<and>
     pose_fields m d w (fst geoms) Geom_init = Some a1 \<and>
     pose_fields m d w (snd geoms) Geom_init = Some a2 \<and>
     mesh_fields MESH m t1 (fst geoms) a1 = Some b1 \<and>
     mesh_fields MESH m t2 (snd geoms) a2 = Some b2 \<and>
     geom1 = b1\<lparr> index := - 1, margin := 0 \<rparr> \<and> geom2 = b2\<lparr> index := - 1, margin := 0 \<rparr>"
  by (auto simp: geom_collision_pair_def Let_def split: Option.bind_splits)

lemma zero_view_init: "zero_view Geom_init"
  by (simp add: zero_view_def Geom_init_def)

lemma wp_mod_nonneg: "0 \<le> w \<Longrightarrow> wp_mod w (shape0 a) = w mod shape0 a"
  by (simp add: wp_mod_def shape0_def smod_int_alt_def sgn_if)

text \<open>The examples, evaluated.\<close>

lemmas ex_defs = ex_model_def ex_data_def ex_data_single_def ex_pairs_def ex_pairids_def
  ex_minval_def ex_minmu_def ex_safe_div_def ident33_def

lemmas read_defs = aget_def aget2_def wp_mod_def shape0_def smod_int_alt_def wp_where_def

lemma ex_views_meshes:
  "\<exists>geom1 geom2. geom_collision_pair 7 ex_model ex_data (1, 2) 1 = Some (geom1, geom2)"
  by (simp add: geom_collision_pair_def pose_fields_def mesh_fields_def read_defs ex_defs)

lemma ex_views_sphere:
  "\<exists>geom1 geom2. geom_collision_pair 7 ex_model ex_data (0, 1) 1 = Some (geom1, geom2)"
  by (simp add: geom_collision_pair_def pose_fields_def mesh_fields_def read_defs ex_defs)

lemma ex_types:
  "aget (geom_type ex_model) 0 = Some 2" "aget (geom_type ex_model) 1 = Some 7"
  "aget (geom_type ex_model) 2 = Some 7" "aget (geom_dataid ex_model) 1 = Some 0"
  "aget (geom_dataid ex_model) 2 = Some (- 1)"
  by (simp_all add: aget_def ex_model_def)

text \<open>
  C9: in \<open>geom_collision_pair\<close>, the view of a geometry of type mesh has every mesh
  address and count field (\<open>vertadr\<close>, \<open>vertnum\<close>, \<open>graphadr\<close>, \<open>mesh_polynum\<close>,
  \<open>mesh_polyadr\<close>) at the sentinel \<open>-1\<close> when the data id of the geometry is negative,
  and at the entries of the mesh tables at the data id when it is not negative.
\<close>

theorem geom_collision_pair_mesh_sentinel:
  assumes "geom_collision_pair MESH m d geoms w = Some (geom1, geom2)"
  shows "(aget (geom_type m) (fst geoms) = Some MESH \<longrightarrow>
            aget (geom_dataid m) (fst geoms) = Some dataid1 \<longrightarrow> mesh_view m dataid1 geom1) \<and>
         (aget (geom_type m) (snd geoms) = Some MESH \<longrightarrow>
            aget (geom_dataid m) (snd geoms) = Some dataid2 \<longrightarrow> mesh_view m dataid2 geom2)"
proof -
  from geom_collision_pair_Some [OF assms] obtain t1 t2 a1 a2 b1 b2 where
    t: "aget (geom_type m) (fst geoms) = Some t1" "aget (geom_type m) (snd geoms) = Some t2"
    and b: "mesh_fields MESH m t1 (fst geoms) a1 = Some b1"
       "mesh_fields MESH m t2 (snd geoms) a2 = Some b2"
    and g: "geom1 = b1\<lparr> index := - 1, margin := 0 \<rparr>" "geom2 = b2\<lparr> index := - 1, margin := 0 \<rparr>"
    by blast
  have v: "\<And>k b. mesh_view m k (b\<lparr> index := - 1, margin := 0 \<rparr>) = mesh_view m k b"
    by (simp add: mesh_view_def)
  show ?thesis
    using t b g mesh_fields_mesh [of MESH m "fst geoms" a1 b1 dataid1]
      mesh_fields_mesh [of MESH m "snd geoms" a2 b2 dataid2]
    by (auto simp: v)
qed

text \<open>
  The two meshes of the example in world 1: the first has the data id 0, the second has
  none.
\<close>

theorem geom_collision_pair_mesh_sentinel_witness:
  "case geom_collision_pair 7 ex_model ex_data (1, 2) 1 of
     None \<Rightarrow> False
   | Some (geom1, geom2) \<Rightarrow>
       vertadr geom1 = 0 \<and> vertnum geom1 = 8 \<and> mesh_polynum geom1 = 6 \<and>
       vertadr geom2 = - 1 \<and> vertnum geom2 = - 1 \<and> graphadr geom2 = - 1 \<and>
       mesh_polynum geom2 = - 1 \<and> mesh_polyadr geom2 = - 1"
proof -
  from ex_views_meshes obtain geom1 geom2 where
    g: "geom_collision_pair 7 ex_model ex_data (1, 2) 1 = Some (geom1, geom2)" by blast
  have "mesh_view ex_model 0 geom1 \<and> mesh_view ex_model (- 1) geom2"
    using geom_collision_pair_mesh_sentinel [OF g, of 0 "- 1"] ex_types by simp
  then have "vertadr geom1 = 0 \<and> vertnum geom1 = 8 \<and> mesh_polynum geom1 = 6 \<and>
       vertadr geom2 = - 1 \<and> vertnum geom2 = - 1 \<and> graphadr geom2 = - 1 \<and>
       mesh_polynum geom2 = - 1 \<and> mesh_polyadr geom2 = - 1"
    by (simp add: mesh_view_def aget_def ex_model_def)
  with g show ?thesis by simp
qed

text \<open>
  C10: in \<open>geom_collision_pair\<close>, the view of a geometry whose type is not mesh keeps
  the zero of the fresh struct in its mesh address and count fields
  (\<open>vertadr = vertnum = graphadr = mesh_polynum = mesh_polyadr = 0\<close>), not the sentinel
  \<open>-1\<close>, so the sentinel test does not tell it from a mesh at address 0; and for every
  geometry, of any type, the view has the margin \<open>0.0\<close> and the index \<open>-1\<close>.
\<close>

theorem geom_collision_pair_non_mesh_zero:
  assumes "geom_collision_pair MESH m d geoms w = Some (geom1, geom2)"
  shows "(aget (geom_type m) (fst geoms) \<noteq> Some MESH \<longrightarrow>
            zero_view geom1 \<and> vertadr geom1 \<noteq> - 1) \<and>
         (aget (geom_type m) (snd geoms) \<noteq> Some MESH \<longrightarrow>
            zero_view geom2 \<and> vertadr geom2 \<noteq> - 1) \<and>
         margin geom1 = 0 \<and> index geom1 = - 1 \<and> margin geom2 = 0 \<and> index geom2 = - 1"
proof -
  from geom_collision_pair_Some [OF assms] obtain t1 t2 a1 a2 b1 b2 where
    t: "aget (geom_type m) (fst geoms) = Some t1" "aget (geom_type m) (snd geoms) = Some t2"
    and a: "pose_fields m d w (fst geoms) Geom_init = Some a1"
       "pose_fields m d w (snd geoms) Geom_init = Some a2"
    and b: "mesh_fields MESH m t1 (fst geoms) a1 = Some b1"
       "mesh_fields MESH m t2 (snd geoms) a2 = Some b2"
    and g: "geom1 = b1\<lparr> index := - 1, margin := 0 \<rparr>" "geom2 = b2\<lparr> index := - 1, margin := 0 \<rparr>"
    by blast
  have z: "zero_view a1" "zero_view a2"
    using pose_fields_mesh [OF a(1)] pose_fields_mesh [OF a(2)] zero_view_init
    by (simp_all add: zero_view_def)
  have "t1 \<noteq> MESH \<Longrightarrow> zero_view geom1"
    using mesh_fields_other [OF _ b(1)] z g by (simp add: zero_view_def)
  moreover have "t2 \<noteq> MESH \<Longrightarrow> zero_view geom2"
    using mesh_fields_other [OF _ b(2)] z g by (simp add: zero_view_def)
  ultimately show ?thesis using t g by (auto simp: zero_view_def)
qed

text \<open>
  The sphere and the first mesh of the example in world 1: the view of the sphere has the
  address 0 and the count 0, the view of the mesh, whose data start at address 0, has the
  address 0 as well.
\<close>

theorem geom_collision_pair_non_mesh_zero_witness:
  "case geom_collision_pair 7 ex_model ex_data (0, 1) 1 of
     None \<Rightarrow> False
   | Some (geom1, geom2) \<Rightarrow>
       zero_view geom1 \<and> vertadr geom1 \<noteq> - 1 \<and> margin geom1 = 0 \<and> index geom1 = - 1 \<and>
       margin geom2 = 0 \<and> index geom2 = - 1"
proof -
  from ex_views_sphere obtain geom1 geom2 where
    g: "geom_collision_pair 7 ex_model ex_data (0, 1) 1 = Some (geom1, geom2)" by blast
  have "zero_view geom1 \<and> vertadr geom1 \<noteq> - 1 \<and> margin geom1 = 0 \<and> index geom1 = - 1 \<and>
       margin geom2 = 0 \<and> index geom2 = - 1"
    using geom_collision_pair_non_mesh_zero [OF g] ex_types by simp
  with g show ?thesis by simp
qed

section \<open>Properties of \<open>contact_params\<close>\<close>

lemma contact_params_Some:
  assumes "contact_params sd MV MU m cp cpid cid w = Some (geoms, mg, gp, cd, fr, sr, srf, si)"
  shows "\<exists>pid fr0. aget cp cid = Some geoms \<and> aget cpid cid = Some pid \<and>
           (if fst pid > - 1 then pair_params m w (fst pid) else geom_params sd MV m w geoms)
             = Some (mg, gp, cd, fr0, sr, srf, si) \<and>
           fr = floor_friction MU fr0"
  using assms
  by (fastforce simp: contact_params_def Let_def split: Option.bind_splits prod.splits if_splits)

lemma geom_params_Some:
  assumes "geom_params sd MV m w geoms = Some (mg, gp, cd, fr0, sr, srf, si)"
  shows "\<exists>s1 s2 c1 c2 p1 p2 mix mf sr1 sr2 si1 si2 m1 m2 g1 g2.
     aget2 (geom_solmix m) (wp_mod w (shape0 (geom_solmix m))) (fst geoms) = Some s1 \<and>
     aget2 (geom_solmix m) (wp_mod w (shape0 (geom_solmix m))) (snd geoms) = Some s2 \<and>
     aget (geom_condim m) (fst geoms) = Some c1 \<and>
     aget (geom_condim m) (snd geoms) = Some c2 \<and>
     aget (geom_priority m) (fst geoms) = Some p1 \<and>
     aget (geom_priority m) (snd geoms) = Some p2 \<and>
     priority_mix sd MV m (wp_mod w (shape0 (geom_friction m))) (fst geoms) (snd geoms)
       p1 p2 c1 c2 s1 s2 = Some (mix, cd, mf) \<and>
     fr0 = expand_friction mf \<and>
     aget2 (geom_solref m) (wp_mod w (shape0 (geom_solref m))) (fst geoms) = Some sr1 \<and>
     aget2 (geom_solref m) (wp_mod w (shape0 (geom_solref m))) (snd geoms) = Some sr2 \<and>
     sr = (if v2_0 sr1 > 0 \<and> v2_0 sr2 > 0
           then add_vec2 (scale_vec2 mix sr1) (scale_vec2 (1 - mix) sr2)
           else min_vec2 sr1 sr2) \<and>
     srf = Vec2 0 0 \<and>
     aget2 (geom_solimp m) (wp_mod w (shape0 (geom_solimp m))) (fst geoms) = Some si1 \<and>
     aget2 (geom_solimp m) (wp_mod w (shape0 (geom_solimp m))) (snd geoms) = Some si2 \<and>
     si = add_vec5 (scale_vec5 mix si1) (scale_vec5 (1 - mix) si2) \<and>
     aget2 (geom_margin m) (wp_mod w (shape0 (geom_margin m))) (fst geoms) = Some m1 \<and>
     aget2 (geom_margin m) (wp_mod w (shape0 (geom_margin m))) (snd geoms) = Some m2 \<and>
     aget2 (geom_gap m) (wp_mod w (shape0 (geom_gap m))) (fst geoms) = Some g1 \<and>
     aget2 (geom_gap m) (wp_mod w (shape0 (geom_gap m))) (snd geoms) = Some g2 \<and>
     mg = m1 + m2 \<and> gp = g1 + g2"
  using assms
  by (simp add: geom_params_def Let_def split: Option.bind_splits) force

lemma priority_mix_Some:
  assumes "priority_mix sd MV m fid g1 g2 p1 p2 c1 c2 s1 s2 = Some (mix, cd, mf)"
    and "aget2 (geom_friction m) fid g1 = Some f1"
    and "aget2 (geom_friction m) fid g2 = Some f2"
  shows "(mix, cd, mf) =
     (if p1 > p2 then (1, c1, f1) else if p2 > p1 then (0, c2, f2)
      else (solmix_weight sd MV s1 s2, max c1 c2, max_vec3 f1 f2))"
  using assms by (auto simp: priority_mix_def split: if_splits)

lemma priority_mix_weight:
  assumes "priority_mix sd MV m fid g1 g2 p1 p2 c1 c2 s1 s2 = Some (mix, cd, mf)"
  shows "mix = (if p1 > p2 then 1 else if p2 > p1 then 0 else solmix_weight sd MV s1 s2)"
  using assms by (auto simp: priority_mix_def split: if_splits Option.bind_splits)

lemma floor_friction_ge:
  "MU \<le> v5_0 (floor_friction MU f) \<and> MU \<le> v5_1 (floor_friction MU f) \<and>
   MU \<le> v5_2 (floor_friction MU f) \<and> MU \<le> v5_3 (floor_friction MU f) \<and>
   MU \<le> v5_4 (floor_friction MU f)"
  by (simp add: floor_friction_def)

lemma solmix_weight_cases:
  assumes "0 < MV" and "\<forall>x y. y \<noteq> 0 \<longrightarrow> sd x y = x / y"
  shows "solmix_weight sd MV s1 s2 =
     (if s1 < MV \<and> s2 < MV then 1 / 2 else if s1 < MV then 0 else if s2 < MV then 1
      else s1 / (s1 + s2))"
  using assms by (auto simp: solmix_weight_def wp_where_def Let_def)

lemma mixing_branch:
  assumes "contact_params sd MV MU m cp cpid cid w = Some (geoms, mg, gp, cd, fr, sr, srf, si)"
    and "aget cpid cid = Some pid" and "\<not> fst pid > - 1"
  shows "\<exists>fr0. geom_params sd MV m w geoms = Some (mg, gp, cd, fr0, sr, srf, si) \<and>
           fr = floor_friction MU fr0"
  using contact_params_Some [OF assms(1)] assms(2,3) by auto

lemma solmix_weight_chain:
  "solmix_weight sd MV s1 s2 =
     (if s1 \<ge> MV \<and> s2 < MV then 1 else if s1 < MV \<and> s2 \<ge> MV then 0
      else if s1 < MV \<and> s2 < MV then 1 / 2 else sd s1 (s1 + s2))"
  by (auto simp: solmix_weight_def wp_where_def Let_def)

lemma priority_mix_cases:
  assumes "priority_mix sd MV m fid g1 g2 p1 p2 c1 c2 s1 s2 = Some (mix, cd, mf)"
  shows "(p1 > p2 \<longrightarrow> aget2 (geom_friction m) fid g1 = Some mf) \<and>
         (p2 > p1 \<longrightarrow> aget2 (geom_friction m) fid g2 = Some mf) \<and>
         (p1 = p2 \<longrightarrow> (\<exists>f1 f2. aget2 (geom_friction m) fid g1 = Some f1 \<and>
            aget2 (geom_friction m) fid g2 = Some f2 \<and> mf = max_vec3 f1 f2))"
  using assms by (auto simp: priority_mix_def split: if_splits Option.bind_splits)

text \<open>The three candidates of the example, evaluated in world 1 and in world 0.\<close>

lemmas params_defs = contact_params_def geom_params_def pair_params_def priority_mix_def
  solmix_weight_def expand_friction_def floor_friction_def add_vec2_def scale_vec2_def
  add_vec5_def scale_vec5_def min_vec2_def max_vec3_def

lemma ex_params_priority:
  "contact_params ex_safe_div ex_minval ex_minmu ex_model ex_pairs ex_pairids 0 1
     = Some ((0, 1), 1 / 100, 0, 1,
             Vec5 (1 / 100000) (1 / 100000) (1 / 100000) (1 / 100000) (1 / 100000),
             Vec2 (1 / 50) 1, Vec2 0 0, Vec5 1 1 1 1 2)"
  by (simp add: params_defs read_defs ex_defs)

lemma ex_params_mixed:
  "contact_params ex_safe_div ex_minval ex_minmu ex_model ex_pairs ex_pairids 1 1
     = Some ((1, 2), 3 / 100, 1 / 100, 4, Vec5 1 1 (1 / 100) (1 / 10000) (1 / 10000),
             Vec2 0 (- 10), Vec2 0 0, Vec5 3 3 3 3 2)"
  by (simp add: params_defs read_defs ex_defs)

lemma ex_params_pair_world1:
  "contact_params ex_safe_div ex_minval ex_minmu ex_model ex_pairs ex_pairids 2 1 = None"
  by (simp add: params_defs read_defs ex_defs)

lemma ex_params_pair_world0:
  "contact_params ex_safe_div ex_minval ex_minmu ex_model ex_pairs ex_pairids 2 0
     = Some ((0, 1), 1 / 10, 0, 3, Vec5 (1 / 100000) 1 (1 / 100000) 1 (1 / 100000),
             Vec2 (1 / 50) 1, Vec2 0 0, Vec5 1 1 1 1 2)"
  by (simp add: params_defs read_defs ex_defs)

lemma ex_views_single_row:
  "geom_collision_pair 7 ex_model ex_data_single (0, 1) 1 = None"
  "geom_collision_pair 7 ex_model ex_data_single (0, 1) 0 \<noteq> None"
  by (simp_all add: geom_collision_pair_def pose_fields_def mesh_fields_def read_defs ex_defs)

lemma ex_material:
  "aget ex_pairids 0 = Some (- 1, - 1)" "aget ex_pairids 1 = Some (- 1, - 1)"
  "aget (geom_priority ex_model) 0 = Some 1" "aget (geom_priority ex_model) 1 = Some 0"
  "aget (geom_priority ex_model) 2 = Some 0"
  "aget (geom_condim ex_model) 0 = Some 1" "aget (geom_condim ex_model) 1 = Some 3"
  "aget (geom_condim ex_model) 2 = Some 4"
  "aget2 (geom_friction ex_model) (wp_mod 1 (shape0 (geom_friction ex_model))) 0
     = Some (Vec3 0 0 0)"
  "aget2 (geom_friction ex_model) (wp_mod 1 (shape0 (geom_friction ex_model))) 1
     = Some (Vec3 1 (1 / 200) (1 / 10000))"
  "aget2 (geom_solmix ex_model) (wp_mod 1 (shape0 (geom_solmix ex_model))) 0 = Some 1"
  "aget2 (geom_solmix ex_model) (wp_mod 1 (shape0 (geom_solmix ex_model))) 1 = Some 1"
  "aget2 (geom_solmix ex_model) (wp_mod 1 (shape0 (geom_solmix ex_model))) 2 = Some 3"
  "aget2 (geom_solref ex_model) (wp_mod 1 (shape0 (geom_solref ex_model))) 0
     = Some (Vec2 (1 / 50) 1)"
  "aget2 (geom_solref ex_model) (wp_mod 1 (shape0 (geom_solref ex_model))) 1
     = Some (Vec2 (1 / 25) 1)"
  "aget2 (geom_solref ex_model) (wp_mod 1 (shape0 (geom_solref ex_model))) 2
     = Some (Vec2 0 (- 10))"
  "aget2 (geom_solimp ex_model) (wp_mod 1 (shape0 (geom_solimp ex_model))) 1
     = Some (Vec5 0 0 0 0 2)"
  "aget2 (geom_solimp ex_model) (wp_mod 1 (shape0 (geom_solimp ex_model))) 2
     = Some (Vec5 4 4 4 4 2)"
  by (simp_all add: read_defs ex_defs)

text \<open>The candidates of the second example, in world 1 and in world 0.\<close>

lemmas ex_b_defs = ex_model_b_def ex_pairs_b_def ex_pairids_b_def

lemma ex_b_second_wins:
  "contact_params ex_safe_div ex_minval ex_minmu ex_model_b ex_pairs_b ex_pairids_b 0 1
     = Some ((0, 1), 3 / 10, 3 / 100, 3,
             Vec5 (7 / 10) (7 / 10) (1 / 200) (1 / 100000) (1 / 100000),
             Vec2 (1 / 25) 2, Vec2 0 0, Vec5 (9 / 10) (19 / 20) (1 / 1000) (1 / 2) 2)"
  by (simp add: params_defs read_defs ex_defs ex_b_defs)

lemma ex_b_equal:
  "contact_params ex_safe_div ex_minval ex_minmu ex_model_b ex_pairs_b ex_pairids_b 1 1
     = Some ((1, 2), 1 / 2, 3 / 50, 4,
             Vec5 (7 / 10) (7 / 10) (1 / 100) (1 / 10000) (1 / 10000),
             Vec2 (17 / 200) (5 / 4), Vec2 0 0, Vec5 (3 / 5) (4 / 5) (31 / 4000) (1 / 2) 5)"
  by (simp add: params_defs read_defs ex_defs ex_b_defs)

lemma ex_b_first_wins:
  "contact_params ex_safe_div ex_minval ex_minmu ex_model_b ex_pairs_b ex_pairids_b 2 1
     = Some ((1, 0), 3 / 10, 3 / 100, 3,
             Vec5 (7 / 10) (7 / 10) (1 / 200) (1 / 100000) (1 / 100000),
             Vec2 (1 / 25) 2, Vec2 0 0, Vec5 (9 / 10) (19 / 20) (1 / 1000) (1 / 2) 2)"
  by (simp add: params_defs read_defs ex_defs ex_b_defs)

lemma ex_b_equal_world0:
  "contact_params ex_safe_div ex_minval ex_minmu ex_model_b ex_pairs_b ex_pairids_b 1 0
     = Some ((1, 2), 3 / 100, 1 / 100, 4, Vec5 1 1 (1 / 100) (1 / 10000) (1 / 10000),
             Vec2 0 1, Vec2 0 0, Vec5 3 3 3 3 2)"
  by (simp add: params_defs read_defs ex_defs ex_b_defs)

lemma ex_b_material:
  "aget ex_pairids_b 0 = Some (- 1, - 1)" "aget ex_pairids_b 1 = Some (- 1, - 1)"
  "aget ex_pairids_b 2 = Some (- 1, - 1)"
  "aget (geom_priority ex_model_b) 0 = Some 0" "aget (geom_priority ex_model_b) 1 = Some 1"
  "aget (geom_priority ex_model_b) 2 = Some 1"
  "aget (geom_condim ex_model_b) 0 = Some 1" "aget (geom_condim ex_model_b) 1 = Some 3"
  "aget (geom_condim ex_model_b) 2 = Some 4"
  "aget2 (geom_friction ex_model_b) (wp_mod 1 (shape0 (geom_friction ex_model_b))) 0
     = Some (Vec3 (3 / 10) (1 / 1000) (1 / 1000))"
  "aget2 (geom_friction ex_model_b) (wp_mod 1 (shape0 (geom_friction ex_model_b))) 1
     = Some (Vec3 (7 / 10) (1 / 200) 0)"
  "aget2 (geom_friction ex_model_b) (wp_mod 1 (shape0 (geom_friction ex_model_b))) 2
     = Some (Vec3 (1 / 2) (1 / 100) (1 / 10000))"
  "aget2 (geom_solmix ex_model_b) (wp_mod 1 (shape0 (geom_solmix ex_model_b))) 1 = Some 1"
  "aget2 (geom_solmix ex_model_b) (wp_mod 1 (shape0 (geom_solmix ex_model_b))) 2 = Some 3"
  "aget2 (geom_solmix ex_model_b) (wp_mod 0 (shape0 (geom_solmix ex_model_b))) 1 = Some 1"
  "aget2 (geom_solmix ex_model_b) (wp_mod 0 (shape0 (geom_solmix ex_model_b))) 2 = Some 3"
  "aget2 (geom_solref ex_model_b) (wp_mod 1 (shape0 (geom_solref ex_model_b))) 1
     = Some (Vec2 (1 / 25) 2)"
  "aget2 (geom_solref ex_model_b) (wp_mod 1 (shape0 (geom_solref ex_model_b))) 2
     = Some (Vec2 (1 / 10) 1)"
  "aget2 (geom_solref ex_model_b) (wp_mod 0 (shape0 (geom_solref ex_model_b))) 1
     = Some (Vec2 0 3)"
  "aget2 (geom_solref ex_model_b) (wp_mod 0 (shape0 (geom_solref ex_model_b))) 2
     = Some (Vec2 (1 / 25) 1)"
  by (simp_all add: read_defs ex_defs ex_b_defs)

text \<open>
  C4: for every input of \<open>contact_params\<close>, under a pair override and under the mixing
  of the two geometries alike, each of the five components of the returned friction is
  at least \<open>MJ_MINMU\<close>, also when friction entries of the geometries or of the pair are
  zero.
\<close>

theorem contact_params_friction_floor:
  assumes "contact_params safe_div MJ_MINVAL MJ_MINMU m cp cpid cid w
             = Some (geoms, mg, gp, cd, fr, sr, srf, si)"
  shows "MJ_MINMU \<le> v5_0 fr \<and> MJ_MINMU \<le> v5_1 fr \<and> MJ_MINMU \<le> v5_2 fr \<and>
         MJ_MINMU \<le> v5_3 fr \<and> MJ_MINMU \<le> v5_4 fr"
proof -
  from contact_params_Some [OF assms] obtain fr0 where "fr = floor_friction MJ_MINMU fr0"
    by blast
  then show ?thesis using floor_friction_ge [of MJ_MINMU fr0] by simp
qed

text \<open>
  The pair override of the example, whose friction has three zero entries, in world 0,
  and the sphere of friction zero that wins by priority, in world 1.
\<close>

theorem contact_params_friction_floor_witness:
  "ex_minmu \<le> v5_0 (Vec5 (1 / 100000) 1 (1 / 100000) 1 (1 / 100000)) \<and>
   ex_minmu \<le> v5_2 (Vec5 (1 / 100000) 1 (1 / 100000) 1 (1 / 100000)) \<and>
   ex_minmu \<le> v5_4 (Vec5 (1 / 100000) 1 (1 / 100000) 1 (1 / 100000)) \<and>
   ex_minmu \<le> v5_0 (Vec5 (1 / 100000) (1 / 100000) (1 / 100000) (1 / 100000) (1 / 100000))"
  using contact_params_friction_floor [OF ex_params_pair_world0]
    contact_params_friction_floor [OF ex_params_priority]
  by simp

text \<open>
  C5, as the specification states it, fails: the sphere of the first example wins by
  priority with the friction triple \<open>(0, 0, 0)\<close>, and the returned friction is not that
  triple on five axes, which is zero on every axis, but \<open>MJ_MINMU\<close> on every axis.
\<close>

theorem contact_params_priority_counterexample:
  "contact_params ex_safe_div ex_minval ex_minmu ex_model ex_pairs ex_pairids 0 1
     = Some ((0, 1), 1 / 100, 0, 1,
             Vec5 (1 / 100000) (1 / 100000) (1 / 100000) (1 / 100000) (1 / 100000),
             Vec2 (1 / 50) 1, Vec2 0 0, Vec5 1 1 1 1 2) \<and>
   aget ex_pairids 0 = Some (- 1, - 1) \<and>
   aget (geom_priority ex_model) 0 = Some 1 \<and> aget (geom_priority ex_model) 1 = Some 0 \<and>
   aget2 (geom_friction ex_model) (wp_mod 1 (shape0 (geom_friction ex_model))) 0
     = Some (Vec3 0 0 0) \<and>
   Vec5 (1 / 100000) (1 / 100000) (1 / 100000) (1 / 100000) (1 / 100000)
     \<noteq> Vec5 (v3_0 (Vec3 0 0 0)) (v3_0 (Vec3 0 0 0)) (v3_1 (Vec3 0 0 0)) (v3_2 (Vec3 0 0 0))
           (v3_2 (Vec3 0 0 0))"
  using ex_params_priority ex_material by simp

text \<open>
  C5, amended: in \<open>contact_params\<close> without a pair override, when the priority of one
  geometry is strictly greater, the returned condim is the condim of that geometry and
  the returned friction is its friction triple on five axes (sliding twice, torsional
  once, rolling twice) with every component raised to at least \<open>MJ_MINMU\<close>, whatever
  the two solmix values; with equal priorities the condim is the greater of the two and
  the friction is the elementwise maximum of the two triples, expanded and raised in
  the same way.
\<close>

theorem contact_params_priority:
  assumes "contact_params safe_div MJ_MINVAL MJ_MINMU m cp cpid cid w
             = Some (geoms, mg, gp, cd, fr, sr, srf, si)"
    and "aget cpid cid = Some pid" and "\<not> fst pid > - 1"
    and "aget (geom_priority m) (fst geoms) = Some p1"
    and "aget (geom_priority m) (snd geoms) = Some p2"
    and "aget (geom_condim m) (fst geoms) = Some c1"
    and "aget (geom_condim m) (snd geoms) = Some c2"
    and "aget2 (geom_friction m) (wp_mod w (shape0 (geom_friction m))) (fst geoms) = Some f1"
    and "aget2 (geom_friction m) (wp_mod w (shape0 (geom_friction m))) (snd geoms) = Some f2"
  shows "(p1 > p2 \<longrightarrow> cd = c1 \<and>
            fr = Vec5 (max MJ_MINMU (v3_0 f1)) (max MJ_MINMU (v3_0 f1))
                      (max MJ_MINMU (v3_1 f1))
                      (max MJ_MINMU (v3_2 f1)) (max MJ_MINMU (v3_2 f1))) \<and>
         (p2 > p1 \<longrightarrow> cd = c2 \<and>
            fr = Vec5 (max MJ_MINMU (v3_0 f2)) (max MJ_MINMU (v3_0 f2))
                      (max MJ_MINMU (v3_1 f2))
                      (max MJ_MINMU (v3_2 f2)) (max MJ_MINMU (v3_2 f2))) \<and>
         (p1 = p2 \<longrightarrow> cd = max c1 c2 \<and>
            fr = Vec5 (max MJ_MINMU (max (v3_0 f1) (v3_0 f2)))
                      (max MJ_MINMU (max (v3_0 f1) (v3_0 f2)))
                      (max MJ_MINMU (max (v3_1 f1) (v3_1 f2)))
                      (max MJ_MINMU (max (v3_2 f1) (v3_2 f2)))
                      (max MJ_MINMU (max (v3_2 f1) (v3_2 f2))))"
proof -
  from mixing_branch [OF assms(1,2,3)] obtain fr0 where
    gp: "geom_params safe_div MJ_MINVAL m w geoms = Some (mg, gp, cd, fr0, sr, srf, si)"
    and fr: "fr = floor_friction MJ_MINMU fr0" by blast
  from geom_params_Some [OF gp] assms(4-7) obtain s1 s2 mix mf where
    pm: "priority_mix safe_div MJ_MINVAL m (wp_mod w (shape0 (geom_friction m))) (fst geoms)
           (snd geoms) p1 p2 c1 c2 s1 s2 = Some (mix, cd, mf)"
    and fr0: "fr0 = expand_friction mf" by auto
  have e: "fr = Vec5 (max MJ_MINMU (v3_0 mf)) (max MJ_MINMU (v3_0 mf)) (max MJ_MINMU (v3_1 mf))
                     (max MJ_MINMU (v3_2 mf)) (max MJ_MINMU (v3_2 mf))"
    using fr fr0 by (simp add: floor_friction_def expand_friction_def)
  have r: "(mix, cd, mf) =
     (if p1 > p2 then (1, c1, f1) else if p2 > p1 then (0, c2, f2)
      else (solmix_weight safe_div MJ_MINVAL s1 s2, max c1 c2, max_vec3 f1 f2))"
    by (rule priority_mix_Some [OF pm assms(8,9)])
  have a: "p1 > p2 \<Longrightarrow> cd = c1 \<and> mf = f1" using r by simp
  have b: "p2 > p1 \<Longrightarrow> cd = c2 \<and> mf = f2" using r by simp
  have c: "p1 = p2 \<Longrightarrow> cd = max c1 c2 \<and> mf = max_vec3 f1 f2" using r by simp
  have d: "p1 = p2 \<Longrightarrow>
      fr = Vec5 (max MJ_MINMU (max (v3_0 f1) (v3_0 f2)))
                (max MJ_MINMU (max (v3_0 f1) (v3_0 f2)))
                (max MJ_MINMU (max (v3_1 f1) (v3_1 f2)))
                (max MJ_MINMU (max (v3_2 f1) (v3_2 f2)))
                (max MJ_MINMU (max (v3_2 f1) (v3_2 f2)))"
    using c e by (simp add: max_vec3_def)
  show ?thesis
  proof (intro conjI impI)
    assume "p1 > p2"
    then show "cd = c1" using a by simp
  next
    assume "p1 > p2"
    then show "fr = Vec5 (max MJ_MINMU (v3_0 f1)) (max MJ_MINMU (v3_0 f1))
                      (max MJ_MINMU (v3_1 f1))
                      (max MJ_MINMU (v3_2 f1)) (max MJ_MINMU (v3_2 f1))"
      using a e by simp
  next
    assume "p2 > p1"
    then show "cd = c2" using b by simp
  next
    assume "p2 > p1"
    then show "fr = Vec5 (max MJ_MINMU (v3_0 f2)) (max MJ_MINMU (v3_0 f2))
                      (max MJ_MINMU (v3_1 f2))
                      (max MJ_MINMU (v3_2 f2)) (max MJ_MINMU (v3_2 f2))"
      using b e by simp
  next
    assume "p1 = p2"
    then show "cd = max c1 c2" using c by simp
  next
    assume "p1 = p2"
    then show "fr = Vec5 (max MJ_MINMU (max (v3_0 f1) (v3_0 f2)))
                      (max MJ_MINMU (max (v3_0 f1) (v3_0 f2)))
                      (max MJ_MINMU (max (v3_1 f1) (v3_1 f2)))
                      (max MJ_MINMU (max (v3_2 f1) (v3_2 f2)))
                      (max MJ_MINMU (max (v3_2 f1) (v3_2 f2)))"
      by (rule d)
  qed
qed

text \<open>
  The second example in world 1. The first mesh, of priority 1 and friction triple
  \<open>(7/10, 1/200, 0)\<close>, wins against the sphere of priority 0 as the second and as the
  first geometry of the pair: condim 3 and friction \<open>(7/10, 7/10, 1/200, MJ_MINMU,
  MJ_MINMU)\<close>. The two meshes of equal priority, with triples \<open>(7/10, 1/200, 0)\<close> and
  \<open>(1/2, 1/100, 1/10000)\<close>: condim 4 and friction \<open>(7/10, 7/10, 1/100, 1/10000,
  1/10000)\<close>.
\<close>

theorem contact_params_priority_witness:
  "contact_params ex_safe_div ex_minval ex_minmu ex_model_b ex_pairs_b ex_pairids_b 0 1
     = Some ((0, 1), 3 / 10, 3 / 100, 3,
             Vec5 (7 / 10) (7 / 10) (1 / 200) (1 / 100000) (1 / 100000),
             Vec2 (1 / 25) 2, Vec2 0 0, Vec5 (9 / 10) (19 / 20) (1 / 1000) (1 / 2) 2) \<and>
   contact_params ex_safe_div ex_minval ex_minmu ex_model_b ex_pairs_b ex_pairids_b 2 1
     = Some ((1, 0), 3 / 10, 3 / 100, 3,
             Vec5 (7 / 10) (7 / 10) (1 / 200) (1 / 100000) (1 / 100000),
             Vec2 (1 / 25) 2, Vec2 0 0, Vec5 (9 / 10) (19 / 20) (1 / 1000) (1 / 2) 2) \<and>
   contact_params ex_safe_div ex_minval ex_minmu ex_model_b ex_pairs_b ex_pairids_b 1 1
     = Some ((1, 2), 1 / 2, 3 / 50, 4,
             Vec5 (7 / 10) (7 / 10) (1 / 100) (1 / 10000) (1 / 10000),
             Vec2 (17 / 200) (5 / 4), Vec2 0 0, Vec5 (3 / 5) (4 / 5) (31 / 4000) (1 / 2) 5) \<and>
   aget (geom_priority ex_model_b) 0 = Some 0 \<and> aget (geom_priority ex_model_b) 1 = Some 1 \<and>
   aget (geom_priority ex_model_b) 2 = Some 1 \<and>
   aget (geom_condim ex_model_b) 1 = Some 3 \<and> aget (geom_condim ex_model_b) 2 = Some 4 \<and>
   aget2 (geom_friction ex_model_b) (wp_mod 1 (shape0 (geom_friction ex_model_b))) 1
     = Some (Vec3 (7 / 10) (1 / 200) 0) \<and>
   aget2 (geom_friction ex_model_b) (wp_mod 1 (shape0 (geom_friction ex_model_b))) 2
     = Some (Vec3 (1 / 2) (1 / 100) (1 / 10000)) \<and>
   (3 :: int) = 3 \<and>
   Vec5 (7 / 10) (7 / 10) (1 / 200) (1 / 100000) (1 / 100000)
     = Vec5 (max ex_minmu (7 / 10)) (max ex_minmu (7 / 10)) (max ex_minmu (1 / 200))
            (max ex_minmu 0) (max ex_minmu 0) \<and>
   (4 :: int) = max 3 4 \<and>
   Vec5 (7 / 10) (7 / 10) (1 / 100) (1 / 10000) (1 / 10000)
     = Vec5 (max ex_minmu (max (7 / 10) (1 / 2))) (max ex_minmu (max (7 / 10) (1 / 2)))
            (max ex_minmu (max (1 / 200) (1 / 100)))
            (max ex_minmu (max 0 (1 / 10000))) (max ex_minmu (max 0 (1 / 10000)))"
proof -
  have second: "(3 :: int) = 3 \<and>
      Vec5 (7 / 10) (7 / 10) (1 / 200) (1 / 100000) (1 / 100000)
        = Vec5 (max ex_minmu (7 / 10)) (max ex_minmu (7 / 10)) (max ex_minmu (1 / 200))
               (max ex_minmu 0) (max ex_minmu 0)"
    using contact_params_priority [OF ex_b_second_wins, where pid = "(- 1, - 1)"
        and ?p1.0 = 0 and ?p2.0 = 1 and ?c1.0 = 1 and ?c2.0 = 3
        and ?f1.0 = "Vec3 (3 / 10) (1 / 1000) (1 / 1000)"
        and ?f2.0 = "Vec3 (7 / 10) (1 / 200) 0"] ex_b_material
    by simp
  have first: "Vec5 (7 / 10) (7 / 10) (1 / 200) (1 / 100000) (1 / 100000)
        = Vec5 (max ex_minmu (7 / 10)) (max ex_minmu (7 / 10)) (max ex_minmu (1 / 200))
               (max ex_minmu 0) (max ex_minmu 0)"
    using contact_params_priority [OF ex_b_first_wins, where pid = "(- 1, - 1)"
        and ?p1.0 = 1 and ?p2.0 = 0 and ?c1.0 = 3 and ?c2.0 = 1
        and ?f1.0 = "Vec3 (7 / 10) (1 / 200) 0"
        and ?f2.0 = "Vec3 (3 / 10) (1 / 1000) (1 / 1000)"] ex_b_material
    by simp
  have equal: "(4 :: int) = max 3 4 \<and>
      Vec5 (7 / 10) (7 / 10) (1 / 100) (1 / 10000) (1 / 10000)
        = Vec5 (max ex_minmu (max (7 / 10) (1 / 2))) (max ex_minmu (max (7 / 10) (1 / 2)))
               (max ex_minmu (max (1 / 200) (1 / 100)))
               (max ex_minmu (max 0 (1 / 10000))) (max ex_minmu (max 0 (1 / 10000)))"
    using contact_params_priority [OF ex_b_equal, where pid = "(- 1, - 1)"
        and ?p1.0 = 1 and ?p2.0 = 1 and ?c1.0 = 3 and ?c2.0 = 4
        and ?f1.0 = "Vec3 (7 / 10) (1 / 200) 0"
        and ?f2.0 = "Vec3 (1 / 2) (1 / 100) (1 / 10000)"] ex_b_material
    by simp
  from first second equal show ?thesis
    by (intro conjI) (rule ex_b_second_wins ex_b_first_wins ex_b_equal ex_b_material
        conjunct1 [OF second] conjunct2 [OF second] conjunct1 [OF equal]
        conjunct2 [OF equal])+
qed

text \<open>
  C6: in \<open>contact_params\<close> without a pair override and with equal priorities, the mix
  weight is \<open>solmix1 / (solmix1 + solmix2)\<close>, except that it is \<open>0.5\<close> when both solmix
  values are below \<open>MJ_MINVAL\<close>, \<open>0.0\<close> when only \<open>solmix1\<close> is, and \<open>1.0\<close> when only
  \<open>solmix2\<close> is; the returned solimp is mixed with this weight. \<open>MJ_MINVAL\<close> is
  positive and \<open>safe_div\<close> is the quotient where the denominator is not zero.
\<close>

theorem contact_params_mix_weight:
  assumes "contact_params safe_div MJ_MINVAL MJ_MINMU m cp cpid cid w
             = Some (geoms, mg, gp, cd, fr, sr, srf, si)"
    and "aget cpid cid = Some pid" and "\<not> fst pid > - 1"
    and "aget (geom_priority m) (fst geoms) = Some p"
    and "aget (geom_priority m) (snd geoms) = Some p"
    and "aget2 (geom_solmix m) (wp_mod w (shape0 (geom_solmix m))) (fst geoms) = Some solmix1"
    and "aget2 (geom_solmix m) (wp_mod w (shape0 (geom_solmix m))) (snd geoms) = Some solmix2"
    and "aget2 (geom_solimp m) (wp_mod w (shape0 (geom_solimp m))) (fst geoms) = Some solimp1"
    and "aget2 (geom_solimp m) (wp_mod w (shape0 (geom_solimp m))) (snd geoms) = Some solimp2"
    and "0 < MJ_MINVAL" and "\<forall>x y. y \<noteq> 0 \<longrightarrow> safe_div x y = x / y"
    and "mix = (if solmix1 < MJ_MINVAL \<and> solmix2 < MJ_MINVAL then 1 / 2
                else if solmix1 < MJ_MINVAL then 0
                else if solmix2 < MJ_MINVAL then 1
                else solmix1 / (solmix1 + solmix2))"
  shows "solmix_weight safe_div MJ_MINVAL solmix1 solmix2 = mix \<and>
         si = add_vec5 (scale_vec5 mix solimp1) (scale_vec5 (1 - mix) solimp2)"
proof -
  have w: "solmix_weight safe_div MJ_MINVAL solmix1 solmix2 = mix"
    using solmix_weight_cases [OF assms(10,11)] assms(12) by simp
  from mixing_branch [OF assms(1,2,3)] obtain fr0 where
    gp: "geom_params safe_div MJ_MINVAL m w geoms = Some (mg, gp, cd, fr0, sr, srf, si)"
    by blast
  from geom_params_Some [OF gp] assms(4-9) obtain c1 c2 mix' mf where
    pm: "priority_mix safe_div MJ_MINVAL m (wp_mod w (shape0 (geom_friction m))) (fst geoms)
           (snd geoms) p p c1 c2 solmix1 solmix2 = Some (mix', cd, mf)"
    and si: "si = add_vec5 (scale_vec5 mix' solimp1) (scale_vec5 (1 - mix') solimp2)" by auto
  have "mix' = solmix_weight safe_div MJ_MINVAL solmix1 solmix2"
    using priority_mix_weight [OF pm] by simp
  with si w show ?thesis by simp
qed

text \<open>The two meshes of the example, of equal priority and solmix 1 and 3, in world 1.\<close>

theorem contact_params_mix_weight_witness:
  "contact_params ex_safe_div ex_minval ex_minmu ex_model ex_pairs ex_pairids 1 1
     = Some ((1, 2), 3 / 100, 1 / 100, 4, Vec5 1 1 (1 / 100) (1 / 10000) (1 / 10000),
             Vec2 0 (- 10), Vec2 0 0, Vec5 3 3 3 3 2) \<and>
   solmix_weight ex_safe_div ex_minval 1 3 = 1 / 4 \<and>
   Vec5 3 3 3 3 2
     = add_vec5 (scale_vec5 (1 / 4) (Vec5 0 0 0 0 2)) (scale_vec5 (1 - 1 / 4) (Vec5 4 4 4 4 2))"
  using contact_params_mix_weight [OF ex_params_mixed, where pid = "(- 1, - 1)" and p = 0
      and ?solmix1.0 = 1 and ?solmix2.0 = 3 and ?solimp1.0 = "Vec5 0 0 0 0 2"
      and ?solimp2.0 = "Vec5 4 4 4 4 2" and mix = "1 / 4"] ex_material ex_params_mixed
  by (simp add: ex_minval_def ex_safe_div_def)

text \<open>
  C7: in the mixing branch of \<open>contact_params\<close>, when the first solref component of
  both geometries is strictly positive the returned solref is
  \<open>mix * solref1 + (1 - mix) * solref2\<close>, component by component; otherwise, also when
  a first component is exactly \<open>0.0\<close>, it is the componentwise minimum of the two solref
  vectors. The weight \<open>mix\<close> is 1 or 0 when a priority is greater and the weight of the
  two solmix values otherwise.
\<close>

theorem contact_params_solref:
  assumes "contact_params safe_div MJ_MINVAL MJ_MINMU m cp cpid cid w
             = Some (geoms, mg, gp, cd, fr, sr, srf, si)"
    and "aget cpid cid = Some pid" and "\<not> fst pid > - 1"
    and "aget (geom_priority m) (fst geoms) = Some p1"
    and "aget (geom_priority m) (snd geoms) = Some p2"
    and "aget2 (geom_solmix m) (wp_mod w (shape0 (geom_solmix m))) (fst geoms) = Some solmix1"
    and "aget2 (geom_solmix m) (wp_mod w (shape0 (geom_solmix m))) (snd geoms) = Some solmix2"
    and "aget2 (geom_solref m) (wp_mod w (shape0 (geom_solref m))) (fst geoms) = Some solref1"
    and "aget2 (geom_solref m) (wp_mod w (shape0 (geom_solref m))) (snd geoms) = Some solref2"
    and "mix = (if p1 > p2 then 1 else if p2 > p1 then 0
                else if solmix1 \<ge> MJ_MINVAL \<and> solmix2 < MJ_MINVAL then 1
                else if solmix1 < MJ_MINVAL \<and> solmix2 \<ge> MJ_MINVAL then 0
                else if solmix1 < MJ_MINVAL \<and> solmix2 < MJ_MINVAL then 1 / 2
                else safe_div solmix1 (solmix1 + solmix2))"
  shows "(v2_0 solref1 > 0 \<and> v2_0 solref2 > 0 \<longrightarrow>
            sr = Vec2 (mix * v2_0 solref1 + (1 - mix) * v2_0 solref2)
                      (mix * v2_1 solref1 + (1 - mix) * v2_1 solref2)) \<and>
         (\<not> (v2_0 solref1 > 0 \<and> v2_0 solref2 > 0) \<longrightarrow>
            sr = Vec2 (min (v2_0 solref1) (v2_0 solref2)) (min (v2_1 solref1) (v2_1 solref2)))"
proof -
  from mixing_branch [OF assms(1,2,3)] obtain fr0 where
    gp: "geom_params safe_div MJ_MINVAL m w geoms = Some (mg, gp, cd, fr0, sr, srf, si)"
    by blast
  from geom_params_Some [OF gp] assms(4-9) obtain c1 c2 mix' mf where
    pm: "priority_mix safe_div MJ_MINVAL m (wp_mod w (shape0 (geom_friction m))) (fst geoms)
           (snd geoms) p1 p2 c1 c2 solmix1 solmix2 = Some (mix', cd, mf)"
    and sr: "sr = (if v2_0 solref1 > 0 \<and> v2_0 solref2 > 0
           then add_vec2 (scale_vec2 mix' solref1) (scale_vec2 (1 - mix') solref2)
           else min_vec2 solref1 solref2)" by auto
  have "mix' = mix"
    using priority_mix_weight [OF pm] assms(10)
      solmix_weight_chain [of safe_div MJ_MINVAL solmix1 solmix2] by simp
  with sr show ?thesis by (simp add: add_vec2_def scale_vec2_def min_vec2_def)
qed

text \<open>
  The two meshes of the second example, of equal priority and solmix 1 and 3. In world
  0 their solref vectors are \<open>(0, 3)\<close> and \<open>(1/25, 1)\<close>: the first component of the
  first is exactly 0, and the result is the minimum \<open>(0, 1)\<close>, one component from each
  vector. In world 1 they are \<open>(1/25, 2)\<close> and \<open>(1/10, 1)\<close>: the result is the mix
  with the weight \<open>1/4\<close>, \<open>(17/200, 5/4)\<close>.
\<close>

theorem contact_params_solref_witness:
  "contact_params ex_safe_div ex_minval ex_minmu ex_model_b ex_pairs_b ex_pairids_b 1 0
     = Some ((1, 2), 3 / 100, 1 / 100, 4, Vec5 1 1 (1 / 100) (1 / 10000) (1 / 10000),
             Vec2 0 1, Vec2 0 0, Vec5 3 3 3 3 2) \<and>
   contact_params ex_safe_div ex_minval ex_minmu ex_model_b ex_pairs_b ex_pairids_b 1 1
     = Some ((1, 2), 1 / 2, 3 / 50, 4,
             Vec5 (7 / 10) (7 / 10) (1 / 100) (1 / 10000) (1 / 10000),
             Vec2 (17 / 200) (5 / 4), Vec2 0 0, Vec5 (3 / 5) (4 / 5) (31 / 4000) (1 / 2) 5) \<and>
   aget2 (geom_solref ex_model_b) (wp_mod 0 (shape0 (geom_solref ex_model_b))) 1
     = Some (Vec2 0 3) \<and>
   aget2 (geom_solref ex_model_b) (wp_mod 0 (shape0 (geom_solref ex_model_b))) 2
     = Some (Vec2 (1 / 25) 1) \<and>
   aget2 (geom_solref ex_model_b) (wp_mod 1 (shape0 (geom_solref ex_model_b))) 1
     = Some (Vec2 (1 / 25) 2) \<and>
   aget2 (geom_solref ex_model_b) (wp_mod 1 (shape0 (geom_solref ex_model_b))) 2
     = Some (Vec2 (1 / 10) 1) \<and>
   Vec2 0 1 = Vec2 (min 0 (1 / 25)) (min 3 1) \<and>
   Vec2 (17 / 200) (5 / 4)
     = Vec2 (1 / 4 * (1 / 25) + (1 - 1 / 4) * (1 / 10)) (1 / 4 * 2 + (1 - 1 / 4) * 1)"
  using contact_params_solref [OF ex_b_equal_world0, where pid = "(- 1, - 1)" and ?p1.0 = 1
      and ?p2.0 = 1 and ?solmix1.0 = 1 and ?solmix2.0 = 3 and ?solref1.0 = "Vec2 0 3"
      and ?solref2.0 = "Vec2 (1 / 25) 1" and mix = "1 / 4"]
    contact_params_solref [OF ex_b_equal, where pid = "(- 1, - 1)" and ?p1.0 = 1
      and ?p2.0 = 1 and ?solmix1.0 = 1 and ?solmix2.0 = 3 and ?solref1.0 = "Vec2 (1 / 25) 2"
      and ?solref2.0 = "Vec2 (1 / 10) 1" and mix = "1 / 4"]
    ex_b_material ex_b_equal_world0 ex_b_equal
  by (simp add: ex_minval_def ex_safe_div_def)

section \<open>Properties of \<open>write_contact\<close>\<close>

lemma wrap32_id: "- 2147483648 \<le> x \<Longrightarrow> x < 2147483648 \<Longrightarrow> wrap32 x = x"
  by (simp add: wrap32_def)

lemma wrap32_range: "- 2147483648 \<le> wrap32 x \<and> wrap32 x < 2147483648"
  unfolding wrap32_def
  using pos_mod_bound [of 4294967296 "x + 2147483648"]
    pos_mod_sign [of 4294967296 "x + 2147483648"]
  by linarith

lemma wrap32_succ_neq: "wrap32 (n + 1) \<noteq> n"
proof (cases "- 2147483648 \<le> n \<and> n < 2147483647")
  case True
  then show ?thesis by (simp add: wrap32_id)
next
  case outside: False
  show ?thesis
  proof (cases "n = 2147483647")
    case True
    then show ?thesis by (simp add: wrap32_def)
  next
    case False
    with outside have "n < - 2147483648 \<or> 2147483648 \<le> n" by linarith
    then show ?thesis using wrap32_range [of "n + 1"] by linarith
  qed
qed

lemma write_contact_dropped:
  "dropped pairid d mg \<Longrightarrow>
   write_contact C S N idc d p f mg gp cd fr sr srf si geoms pairid w out = (0, out)"
  by (auto simp: write_contact_def dropped_def Let_def)

lemma write_contact_overflow:
  "\<not> dropped pairid d mg \<Longrightarrow> \<not> nacon_out out < N \<Longrightarrow>
   write_contact C S N idc d p f mg gp cd fr sr srf si geoms pairid w out
     = (0, out\<lparr> nacon_out := wrap32 (nacon_out out + 1) \<rparr>)"
  by (auto simp: write_contact_def dropped_def Let_def atomic_add_def not_less)

lemma write_contact_written:
  assumes "\<not> dropped pairid d mg" and "nacon_out out < N"
  shows "fst (write_contact C S N idc d p f mg gp cd fr sr srf si geoms pairid w out)
           = of_bool (d < mg)"
    and "nacon_out (snd (write_contact C S N idc d p f mg gp cd fr sr srf si geoms pairid w out))
           = wrap32 (nacon_out out + 1)"
    and "slot (snd (write_contact C S N idc d p f mg gp cd fr sr srf si geoms pairid w out)) i
           = (if i = nacon_out out
              then (d, p, f, mg - gp, fr, sr, srf, si, cd, geoms, w,
                    classify C S pairid (d < mg), idc)
              else slot out i)"
  using assms
  by (auto simp: write_contact_def dropped_def Let_def atomic_add_def not_less slot_def)

lemma write_contact_counter:
  "\<not> dropped pairid d mg \<Longrightarrow>
   nacon_out (snd (write_contact C S N idc d p f mg gp cd fr sr srf si geoms pairid w out))
     = wrap32 (nacon_out out + 1)"
  using write_contact_written(2) [of pairid d mg out N]
    write_contact_overflow [of pairid d mg out N]
  by (cases "nacon_out out < N") simp_all

lemma write_contact_type:
  "\<not> dropped pairid d mg \<Longrightarrow> nacon_out out < N \<Longrightarrow>
   contact_type_out (snd (write_contact C S N idc d p f mg gp cd fr sr srf si geoms pairid w out))
     (nacon_out out) = classify C S pairid (d < mg)"
  by (auto simp: write_contact_def dropped_def Let_def atomic_add_def)

lemma classify_flags:
  assumes "C \<noteq> 0" and "S \<noteq> 0" and "C AND S = 0"
  shows "has_flag (classify C S pairid active) C \<longleftrightarrow> fst pairid \<ge> - 1 \<and> active"
    and "has_flag (classify C S pairid active) S \<longleftrightarrow> snd pairid \<ge> 0"
proof -
  have sc: "S AND C = 0" using assms(3) by (simp add: and.commute)
  show "has_flag (classify C S pairid active) C \<longleftrightarrow> fst pairid \<ge> - 1 \<and> active"
    using assms sc by (auto simp: has_flag_def classify_def Let_def bit.conj_disj_distrib2)
  show "has_flag (classify C S pairid active) S \<longleftrightarrow> snd pairid \<ge> 0"
    using assms sc by (auto simp: has_flag_def classify_def Let_def bit.conj_disj_distrib2)
qed

lemma commit_kept:
  assumes "\<not> dropped (c_pairid c) (c_dist c) (c_margin c)"
  shows "nacon_out (snd (commit C S N c out)) = wrap32 (nacon_out out + 1)"
    and "slot (snd (commit C S N c out)) i
           = (if i = nacon_out out \<and> nacon_out out < N then record_of C S c else slot out i)"
proof -
  show "nacon_out (snd (commit C S N c out)) = wrap32 (nacon_out out + 1)"
    using write_contact_counter [OF assms] by (simp add: commit_def)
  show "slot (snd (commit C S N c out)) i
           = (if i = nacon_out out \<and> nacon_out out < N then record_of C S c else slot out i)"
    using assms write_contact_written(3) [of "c_pairid c" "c_dist c" "c_margin c" out N]
      write_contact_overflow [of "c_pairid c" "c_dist c" "c_margin c" out N]
    by (cases "nacon_out out < N") (simp_all add: commit_def record_of_def slot_def)
qed

text \<open>
  A sequence of candidates none of which is dropped fills the slots from the counter
  upwards, below the capacity, in the order of the calls.
\<close>

lemma commit_all_kept:
  assumes "\<forall>c \<in> set cs. \<not> dropped (c_pairid c) (c_dist c) (c_margin c)"
    and "0 \<le> nacon_out out" and "nacon_out out + int (length cs) < 2147483648"
  shows "nacon_out (commit_all C S N cs out) = nacon_out out + int (length cs) \<and>
         (\<forall>i. slot (commit_all C S N cs out) i
           = (if nacon_out out \<le> i \<and> i < N \<and> i < nacon_out out + int (length cs)
              then record_of C S (cs ! nat (i - nacon_out out)) else slot out i))"
  using assms
proof (induction cs arbitrary: out)
  case Nil
  then show ?case by auto
next
  case (Cons c cs)
  let ?o = "snd (commit C S N c out)"
  have k: "\<not> dropped (c_pairid c) (c_dist c) (c_margin c)" using Cons.prems(1) by simp
  have n1: "nacon_out ?o = nacon_out out + 1"
    using commit_kept(1) [OF k, of C S N out] Cons.prems(2,3) by (simp add: wrap32_id)
  have s1: "\<And>i. slot ?o i
     = (if i = nacon_out out \<and> nacon_out out < N then record_of C S c else slot out i)"
    using commit_kept(2) [OF k] by simp
  have ih: "nacon_out (commit_all C S N cs ?o) = nacon_out ?o + int (length cs) \<and>
         (\<forall>i. slot (commit_all C S N cs ?o) i
           = (if nacon_out ?o \<le> i \<and> i < N \<and> i < nacon_out ?o + int (length cs)
              then record_of C S (cs ! nat (i - nacon_out ?o)) else slot ?o i))"
    using Cons.IH [of ?o] Cons.prems n1 by simp
  have idx: "\<And>i. nacon_out out + 1 \<le> i \<Longrightarrow>
       (c # cs) ! nat (i - nacon_out out) = cs ! nat (i - (nacon_out out + 1))"
  proof -
    fix i assume "nacon_out out + 1 \<le> i"
    then have "nat (i - nacon_out out) = Suc (nat (i - (nacon_out out + 1)))" by linarith
    then show "(c # cs) ! nat (i - nacon_out out) = cs ! nat (i - (nacon_out out + 1))"
      by simp
  qed
  show ?case
  proof (intro conjI allI)
    show "nacon_out (commit_all C S N (c # cs) out) = nacon_out out + int (length (c # cs))"
      using ih n1 by simp
  next
    fix i
    show "slot (commit_all C S N (c # cs) out) i
           = (if nacon_out out \<le> i \<and> i < N \<and> i < nacon_out out + int (length (c # cs))
              then record_of C S ((c # cs) ! nat (i - nacon_out out)) else slot out i)"
    proof (cases "nacon_out out + 1 \<le> i")
      case True
      then show ?thesis using ih n1 s1 [of i] idx [OF True] by simp
    next
      case False
      then show ?thesis using ih n1 s1 [of i] by (auto simp: not_le)
    qed
  qed
qed

text \<open>
  C2: a call of \<open>write_contact\<close> is dropped early, that is, returns 0, writes no output
  array and leaves the counter \<open>nacon\<close> as it is, if and only if
  \<open>(pairid[0] = -2 or dist \<ge> margin) and pairid[1] = -1\<close>; in every other case the
  counter is incremented once (by one, as a 32-bit integer).
\<close>

theorem write_contact_drop:
  "(write_contact CONSTRAINT SENSOR naconmax_in id_in dist_in pos_in frame_in margin_in gap_in
      condim_in friction_in solref_in solreffriction_in solimp_in geoms_in pairid_in worldid_in
      out = (0, out)
    \<longleftrightarrow> (fst pairid_in = - 2 \<or> dist_in \<ge> margin_in) \<and> snd pairid_in = - 1) \<and>
   (\<not> ((fst pairid_in = - 2 \<or> dist_in \<ge> margin_in) \<and> snd pairid_in = - 1) \<longrightarrow>
      nacon_out (snd (write_contact CONSTRAINT SENSOR naconmax_in id_in dist_in pos_in frame_in
        margin_in gap_in condim_in friction_in solref_in solreffriction_in solimp_in geoms_in
        pairid_in worldid_in out)) = wrap32 (nacon_out out + 1) \<and>
      (- 2147483648 \<le> nacon_out out \<and> nacon_out out < 2147483647 \<longrightarrow>
         wrap32 (nacon_out out + 1) = nacon_out out + 1))"
proof -
  let ?r = "write_contact CONSTRAINT SENSOR naconmax_in id_in dist_in pos_in frame_in margin_in
      gap_in condim_in friction_in solref_in solreffriction_in solimp_in geoms_in pairid_in
      worldid_in out"
  let ?D = "dropped pairid_in dist_in margin_in"
  have d: "?D \<longleftrightarrow> (fst pairid_in = - 2 \<or> dist_in \<ge> margin_in) \<and> snd pairid_in = - 1"
    by (simp add: dropped_def)
  have a: "?D \<Longrightarrow> ?r = (0, out)" by (rule write_contact_dropped)
  have b: "\<not> ?D \<Longrightarrow> nacon_out (snd ?r) = wrap32 (nacon_out out + 1)"
    by (rule write_contact_counter)
  have c: "\<not> ?D \<Longrightarrow> ?r \<noteq> (0, out)"
  proof
    assume "\<not> ?D" and "?r = (0, out)"
    then have "nacon_out out = wrap32 (nacon_out out + 1)" using b by simp
    then show False using wrap32_succ_neq [of "nacon_out out"] by simp
  qed
  show ?thesis using a b c d by (auto simp: wrap32_id)
qed

text \<open>
  A candidate \<open>(-2, -1)\<close> beyond its margin is dropped; a candidate \<open>(-1, -1)\<close> within
  its margin moves the counter from 0 to 1.
\<close>

theorem write_contact_drop_witness:
  "write_contact 1 2 4 7 (1 / 5) (Vec3 0 0 1) ident33 (1 / 10) (1 / 100) 3
        (Vec5 1 1 1 1 1) (Vec2 (1 / 50) 1) (Vec2 0 0) (Vec5 1 1 1 1 2) (0, 1) (- 2, - 1) 0 ex_out = (0, ex_out) \<and>
   nacon_out (snd (write_contact 1 2 4 7 0 (Vec3 0 0 1) ident33 (1 / 10) (1 / 100) 3
        (Vec5 1 1 1 1 1) (Vec2 (1 / 50) 1) (Vec2 0 0) (Vec5 1 1 1 1 2) (0, 1) (- 1, - 1) 0 ex_out)) = 1"
  using write_contact_drop [where CONSTRAINT = 1 and SENSOR = 2 and naconmax_in = 4
      and id_in = 7 and dist_in = "1 / 5" and pos_in = "Vec3 0 0 1" and frame_in = ident33
      and margin_in = "1 / 10" and gap_in = "1 / 100" and condim_in = 3
      and friction_in = "Vec5 1 1 1 1 1" and solref_in = "Vec2 (1 / 50) 1"
      and solreffriction_in = "Vec2 0 0" and solimp_in = "Vec5 1 1 1 1 2"
      and geoms_in = "(0, 1)" and pairid_in = "(- 2, - 1)" and worldid_in = 0 and out = ex_out]
    write_contact_drop [where CONSTRAINT = 1 and SENSOR = 2 and naconmax_in = 4
      and id_in = 7 and dist_in = "0" and pos_in = "Vec3 0 0 1" and frame_in = ident33
      and margin_in = "1 / 10" and gap_in = "1 / 100" and condim_in = 3
      and friction_in = "Vec5 1 1 1 1 1" and solref_in = "Vec2 (1 / 50) 1"
      and solreffriction_in = "Vec2 0 0" and solimp_in = "Vec5 1 1 1 1 2"
      and geoms_in = "(0, 1)" and pairid_in = "(- 1, - 1)" and worldid_in = 0 and out = ex_out]
  by (simp add: ex_out_def wrap32_def)

text \<open>
  C3: in \<open>write_contact\<close>, when the reserved index \<open>cid\<close> is below \<open>naconmax\<close> the
  whole record is written at \<open>cid\<close>, with \<open>includemargin = margin - gap\<close>, and the call
  returns 1 if \<open>dist < margin\<close> and 0 otherwise; when the index is at or beyond
  \<open>naconmax\<close> no output array is written and 0 is returned, and the counter is
  incremented all the same. So \<open>capacity + K\<close> candidates that are not dropped, committed
  from the counter 0, leave exactly the slots below the capacity written, each with the
  record of its candidate, the counter at \<open>capacity + K\<close> (a 32-bit integer), and every
  index at or beyond the capacity as it was.
\<close>

theorem write_contact_capacity:
  "(\<not> dropped pairid_in dist_in margin_in \<longrightarrow>
     (let r = write_contact CONSTRAINT SENSOR naconmax_in id_in dist_in pos_in frame_in
                margin_in gap_in condim_in friction_in solref_in solreffriction_in solimp_in
                geoms_in pairid_in worldid_in out
      in (nacon_out out < naconmax_in \<longrightarrow>
            fst r = of_bool (dist_in < margin_in) \<and>
            slot (snd r) (nacon_out out) =
              (dist_in, pos_in, frame_in, margin_in - gap_in, friction_in, solref_in,
               solreffriction_in, solimp_in, condim_in, geoms_in, worldid_in,
               classify CONSTRAINT SENSOR pairid_in (dist_in < margin_in), id_in) \<and>
            (\<forall>i. i \<noteq> nacon_out out \<longrightarrow> slot (snd r) i = slot out i)) \<and>
         (naconmax_in \<le> nacon_out out \<longrightarrow>
            r = (0, out\<lparr> nacon_out := wrap32 (nacon_out out + 1) \<rparr>)) \<and>
         nacon_out (snd r) = wrap32 (nacon_out out + 1))) \<and>
   ((\<forall>c \<in> set cs. \<not> dropped (c_pairid c) (c_dist c) (c_margin c)) \<longrightarrow>
      nacon_out out = 0 \<longrightarrow> 0 \<le> naconmax_in \<longrightarrow> length cs = nat naconmax_in + K \<longrightarrow>
      naconmax_in + int K < 2147483648 \<longrightarrow>
      nacon_out (commit_all CONSTRAINT SENSOR naconmax_in cs out) = naconmax_in + int K \<and>
      (\<forall>i. slot (commit_all CONSTRAINT SENSOR naconmax_in cs out) i =
             (if 0 \<le> i \<and> i < naconmax_in then record_of CONSTRAINT SENSOR (cs ! nat i)
              else slot out i)))"
proof (intro conjI impI)
  assume k: "\<not> dropped pairid_in dist_in margin_in"
  let ?r = "write_contact CONSTRAINT SENSOR naconmax_in id_in dist_in pos_in frame_in
                margin_in gap_in condim_in friction_in solref_in solreffriction_in solimp_in
                geoms_in pairid_in worldid_in out"
  have a: "nacon_out out < naconmax_in \<Longrightarrow> fst ?r = of_bool (dist_in < margin_in)"
    using write_contact_written(1) [OF k] by simp
  have b: "\<And>i. nacon_out out < naconmax_in \<Longrightarrow> slot (snd ?r) i =
      (if i = nacon_out out
       then (dist_in, pos_in, frame_in, margin_in - gap_in, friction_in, solref_in,
             solreffriction_in, solimp_in, condim_in, geoms_in, worldid_in,
             classify CONSTRAINT SENSOR pairid_in (dist_in < margin_in), id_in)
       else slot out i)"
    using write_contact_written(3) [OF k] by simp
  have c: "nacon_out (snd ?r) = wrap32 (nacon_out out + 1)"
    using write_contact_counter [OF k] by simp
  have d: "naconmax_in \<le> nacon_out out \<Longrightarrow>
      ?r = (0, out\<lparr> nacon_out := wrap32 (nacon_out out + 1) \<rparr>)"
    using write_contact_overflow [OF k, of out naconmax_in] by (simp add: not_less)
  show "let r = ?r
      in (nacon_out out < naconmax_in \<longrightarrow>
            fst r = of_bool (dist_in < margin_in) \<and>
            slot (snd r) (nacon_out out) =
              (dist_in, pos_in, frame_in, margin_in - gap_in, friction_in, solref_in,
               solreffriction_in, solimp_in, condim_in, geoms_in, worldid_in,
               classify CONSTRAINT SENSOR pairid_in (dist_in < margin_in), id_in) \<and>
            (\<forall>i. i \<noteq> nacon_out out \<longrightarrow> slot (snd r) i = slot out i)) \<and>
         (naconmax_in \<le> nacon_out out \<longrightarrow>
            r = (0, out\<lparr> nacon_out := wrap32 (nacon_out out + 1) \<rparr>)) \<and>
         nacon_out (snd r) = wrap32 (nacon_out out + 1)"
    unfolding Let_def using a b c d by (cases "nacon_out out < naconmax_in") auto
next
  assume h: "\<forall>c \<in> set cs. \<not> dropped (c_pairid c) (c_dist c) (c_margin c)"
    "nacon_out out = 0" "0 \<le> naconmax_in" "length cs = nat naconmax_in + K"
    "naconmax_in + int K < 2147483648"
  have len: "int (length cs) = naconmax_in + int K" using h(3,4) by simp
  have g: "nacon_out (commit_all CONSTRAINT SENSOR naconmax_in cs out)
             = nacon_out out + int (length cs) \<and>
         (\<forall>i. slot (commit_all CONSTRAINT SENSOR naconmax_in cs out) i
           = (if nacon_out out \<le> i \<and> i < naconmax_in \<and> i < nacon_out out + int (length cs)
              then record_of CONSTRAINT SENSOR (cs ! nat (i - nacon_out out)) else slot out i))"
    by (rule commit_all_kept) (use h len in simp_all)
  show "nacon_out (commit_all CONSTRAINT SENSOR naconmax_in cs out) = naconmax_in + int K"
    using g h(2) len by simp
  show "\<forall>i. slot (commit_all CONSTRAINT SENSOR naconmax_in cs out) i =
             (if 0 \<le> i \<and> i < naconmax_in then record_of CONSTRAINT SENSOR (cs ! nat i)
              else slot out i)"
    using g h(2) len by auto
qed

text \<open>
  Three candidates on a buffer of capacity 2: the counter ends at 3, the slot 1 holds the
  record of the second candidate, the slot 2 is as it was.
\<close>

theorem write_contact_capacity_witness:
  "nacon_out (commit_all 1 2 2
     [ex_candidate 0 (- 1, - 1) 0, ex_candidate 1 (- 2, 5) 1, ex_candidate 2 (- 1, - 1) 0]
     ex_out) = 3 \<and>
   slot (commit_all 1 2 2
     [ex_candidate 0 (- 1, - 1) 0, ex_candidate 1 (- 2, 5) 1, ex_candidate 2 (- 1, - 1) 0]
     ex_out) 1 = record_of 1 2 (ex_candidate 1 (- 2, 5) 1) \<and>
   slot (commit_all 1 2 2
     [ex_candidate 0 (- 1, - 1) 0, ex_candidate 1 (- 2, 5) 1, ex_candidate 2 (- 1, - 1) 0]
     ex_out) 2 = slot ex_out 2"
proof -
  let ?cs = "[ex_candidate 0 (- 1, - 1) 0, ex_candidate 1 (- 2, 5) 1,
              ex_candidate 2 (- 1, - 1) 0]"
  have "nacon_out (commit_all 1 2 2 ?cs ex_out) = 2 + int 1 \<and>
      (\<forall>i. slot (commit_all 1 2 2 ?cs ex_out) i =
             (if 0 \<le> i \<and> i < 2 then record_of 1 2 (?cs ! nat i) else slot ex_out i))"
    using write_contact_capacity [where CONSTRAINT = 1 and SENSOR = 2 and naconmax_in = 2
      and id_in = 7 and dist_in = "0" and pos_in = "Vec3 0 0 1" and frame_in = ident33
      and margin_in = "1 / 10" and gap_in = "1 / 100" and condim_in = 3
      and friction_in = "Vec5 1 1 1 1 1" and solref_in = "Vec2 (1 / 50) 1"
      and solreffriction_in = "Vec2 0 0" and solimp_in = "Vec5 1 1 1 1 2"
      and geoms_in = "(0, 1)" and pairid_in = "(- 1, - 1)" and worldid_in = 0 and out = ex_out
      and cs = ?cs and K = 1]
    by (simp add: dropped_def ex_candidate_def ex_out_def)
  then have n: "nacon_out (commit_all 1 2 2 ?cs ex_out) = 3"
    and s: "\<And>i. slot (commit_all 1 2 2 ?cs ex_out) i =
             (if 0 \<le> i \<and> i < 2 then record_of 1 2 (?cs ! nat i) else slot ex_out i)"
    by simp_all
  show ?thesis using n s [of 1] s [of 2] by simp
qed

text \<open>
  C8: in \<open>write_contact\<close>, the type field of the committed record has the flag
  \<open>CONSTRAINT\<close> if and only if \<open>pairid[0] \<ge> -1\<close> and \<open>dist < margin\<close>, and the flag
  \<open>SENSOR\<close> if and only if \<open>pairid[1] \<ge> 0\<close>, the two being separate bits; a candidate
  \<open>(-2, s)\<close> with \<open>s \<ge> 0\<close> and \<open>dist \<ge> margin\<close> is not dropped: it is written, where
  the reserved index is below the capacity, with \<open>SENSOR\<close> set and \<open>CONSTRAINT\<close> clear,
  and the call returns 0.
\<close>

theorem write_contact_type_flags:
  assumes "CONSTRAINT \<noteq> 0" and "SENSOR \<noteq> 0" and "CONSTRAINT AND SENSOR = 0"
    and "nacon_out out < naconmax_in"
  shows "let r = write_contact CONSTRAINT SENSOR naconmax_in id_in dist_in pos_in frame_in
                   margin_in gap_in condim_in friction_in solref_in solreffriction_in solimp_in
                   geoms_in pairid_in worldid_in out;
             t = contact_type_out (snd r) (nacon_out out)
         in (\<not> dropped pairid_in dist_in margin_in \<longrightarrow>
               (has_flag t CONSTRAINT \<longleftrightarrow> fst pairid_in \<ge> - 1 \<and> dist_in < margin_in) \<and>
               (has_flag t SENSOR \<longleftrightarrow> snd pairid_in \<ge> 0)) \<and>
            (fst pairid_in = - 2 \<and> snd pairid_in \<ge> 0 \<and> dist_in \<ge> margin_in \<longrightarrow>
               \<not> dropped pairid_in dist_in margin_in \<and> fst r = 0 \<and>
               has_flag t SENSOR \<and> \<not> has_flag t CONSTRAINT \<and>
               slot (snd r) (nacon_out out) =
                 (dist_in, pos_in, frame_in, margin_in - gap_in, friction_in, solref_in,
                  solreffriction_in, solimp_in, condim_in, geoms_in, worldid_in, t, id_in))"
proof -
  let ?r = "write_contact CONSTRAINT SENSOR naconmax_in id_in dist_in pos_in frame_in
                   margin_in gap_in condim_in friction_in solref_in solreffriction_in solimp_in
                   geoms_in pairid_in worldid_in out"
  let ?t = "contact_type_out (snd ?r) (nacon_out out)"
  have t: "\<not> dropped pairid_in dist_in margin_in \<Longrightarrow>
             ?t = classify CONSTRAINT SENSOR pairid_in (dist_in < margin_in)"
    using write_contact_type [OF _ assms(4)] by simp
  have a: "\<not> dropped pairid_in dist_in margin_in \<Longrightarrow>
      (has_flag ?t CONSTRAINT \<longleftrightarrow> fst pairid_in \<ge> - 1 \<and> dist_in < margin_in) \<and>
      (has_flag ?t SENSOR \<longleftrightarrow> snd pairid_in \<ge> 0)"
    using t classify_flags [OF assms(1,2,3)] by simp
  have b: "fst pairid_in = - 2 \<and> snd pairid_in \<ge> 0 \<and> dist_in \<ge> margin_in \<Longrightarrow>
      \<not> dropped pairid_in dist_in margin_in" by (auto simp: dropped_def)
  have c: "\<not> dropped pairid_in dist_in margin_in \<Longrightarrow> fst ?r = of_bool (dist_in < margin_in)"
    using write_contact_written(1) [OF _ assms(4)] by simp
  have d: "\<not> dropped pairid_in dist_in margin_in \<Longrightarrow>
      slot (snd ?r) (nacon_out out) =
        (dist_in, pos_in, frame_in, margin_in - gap_in, friction_in, solref_in,
         solreffriction_in, solimp_in, condim_in, geoms_in, worldid_in, ?t, id_in)"
    using write_contact_written(3) [OF _ assms(4), where i = "nacon_out out"] t
    by simp
  show ?thesis unfolding Let_def using a b c d by auto
qed

text \<open>
  With \<open>CONSTRAINT = 1\<close> and \<open>SENSOR = 2\<close>: the candidate \<open>(-2, 5)\<close> beyond its margin
  is written at index 0 with the type 2, and the call returns 0.
\<close>

theorem write_contact_type_flags_witness:
  "fst (write_contact 1 2 4 7 1 (Vec3 0 0 1) ident33 (1 / 10) (1 / 100) 3
        (Vec5 1 1 1 1 1) (Vec2 (1 / 50) 1) (Vec2 0 0) (Vec5 1 1 1 1 2) (0, 1) (- 2, 5) 0 ex_out) = 0 \<and>
   has_flag (contact_type_out (snd (write_contact 1 2 4 7 1 (Vec3 0 0 1) ident33 (1 / 10) (1 / 100) 3
        (Vec5 1 1 1 1 1) (Vec2 (1 / 50) 1) (Vec2 0 0) (Vec5 1 1 1 1 2) (0, 1) (- 2, 5) 0 ex_out)) 0) 2 \<and>
   \<not> has_flag (contact_type_out (snd (write_contact 1 2 4 7 1 (Vec3 0 0 1) ident33 (1 / 10) (1 / 100) 3
        (Vec5 1 1 1 1 1) (Vec2 (1 / 50) 1) (Vec2 0 0) (Vec5 1 1 1 1 2) (0, 1) (- 2, 5) 0 ex_out)) 0) 1"
  using write_contact_type_flags [where CONSTRAINT = 1 and SENSOR = 2 and naconmax_in = 4
      and id_in = 7 and dist_in = "1" and pos_in = "Vec3 0 0 1" and frame_in = ident33
      and margin_in = "1 / 10" and gap_in = "1 / 100" and condim_in = 3
      and friction_in = "Vec5 1 1 1 1 1" and solref_in = "Vec2 (1 / 50) 1"
      and solreffriction_in = "Vec2 0 0" and solimp_in = "Vec5 1 1 1 1 2"
      and geoms_in = "(0, 1)" and pairid_in = "(- 2, 5)" and worldid_in = 0 and out = ex_out]
  by (simp add: ex_out_def Let_def)

section \<open>The row of a world\<close>

text \<open>
  C1, as the specification states it, fails: with pose arrays of a single row, the views
  of world 1 are not those of world 0 (the read of row 1 is outside the arrays), and with
  the pair tables of a single row, the parameters of a pair override in world 1 are not
  those of world 0. Line 100 reads \<open>geom_xpos_in[worldid, g1]\<close> and line 266 reads
  \<open>pair_margin[worldid, pairid]\<close>: the row is the world id, not the world id modulo
  the number of rows.
\<close>

theorem world_row_counterexample:
  "geom_collision_pair 7 ex_model ex_data_single (0, 1) 1 = None \<and>
   geom_collision_pair 7 ex_model ex_data_single (0, 1) 0 \<noteq> None \<and>
   shape0 (geom_xpos_in ex_data_single) = 1 \<and>
   contact_params ex_safe_div ex_minval ex_minmu ex_model ex_pairs ex_pairids 2 1 = None \<and>
   contact_params ex_safe_div ex_minval ex_minmu ex_model ex_pairs ex_pairids 2 0
     = Some ((0, 1), 1 / 10, 0, 3, Vec5 (1 / 100000) 1 (1 / 100000) 1 (1 / 100000),
             Vec2 (1 / 50) 1, Vec2 0 0, Vec5 1 1 1 1 2) \<and>
   aget ex_pairids 2 = Some (0, - 1) \<and> shape0 (pair_margin ex_model) = 1"
  using ex_views_single_row ex_params_pair_world1 ex_params_pair_world0
  by (simp add: shape0_def aget_def ex_defs)

text \<open>
  C1, amended: \<open>geom_collision_pair\<close> reads the size of a geometry at the row
  \<open>worldid mod rowCount\<close> of \<open>geom_size\<close>, and \<open>contact_params\<close>, where there is no
  pair override, reads the material arrays of the geometries (\<open>geom_solmix\<close>,
  \<open>geom_friction\<close>, \<open>geom_solref\<close>, \<open>geom_solimp\<close>, \<open>geom_margin\<close>, \<open>geom_gap\<close>) at
  the row \<open>worldid mod rowCount\<close> of each: the returned parameters are computed from
  the entries of these rows, and they are the same for two worlds with the same rows,
  so that an array of a single row serves every world. The pose (\<open>geom_xpos\<close>,
  \<open>geom_xmat\<close>) is read at the row \<open>worldid\<close>. World ids are not negative.
\<close>

theorem world_row_indexing:
  assumes "0 \<le> w"
  shows "(geom_collision_pair MESH m d geoms w = Some (geom1, geom2) \<longrightarrow>
            aget2 (geom_size m) (w mod shape0 (geom_size m)) (fst geoms) = Some (size_g geom1) \<and>
            aget2 (geom_size m) (w mod shape0 (geom_size m)) (snd geoms) = Some (size_g geom2) \<and>
            aget2 (geom_xpos_in d) w (fst geoms) = Some (pos geom1) \<and>
            aget2 (geom_xmat_in d) w (fst geoms) = Some (rot geom1) \<and>
            aget2 (geom_xpos_in d) w (snd geoms) = Some (pos geom2) \<and>
            aget2 (geom_xmat_in d) w (snd geoms) = Some (rot geom2)) \<and>
         (aget cpid cid = Some pid \<longrightarrow> \<not> fst pid > - 1 \<longrightarrow> 0 \<le> w' \<longrightarrow>
            w mod shape0 (geom_solmix m) = w' mod shape0 (geom_solmix m) \<longrightarrow>
            w mod shape0 (geom_friction m) = w' mod shape0 (geom_friction m) \<longrightarrow>
            w mod shape0 (geom_solref m) = w' mod shape0 (geom_solref m) \<longrightarrow>
            w mod shape0 (geom_solimp m) = w' mod shape0 (geom_solimp m) \<longrightarrow>
            w mod shape0 (geom_margin m) = w' mod shape0 (geom_margin m) \<longrightarrow>
            w mod shape0 (geom_gap m) = w' mod shape0 (geom_gap m) \<longrightarrow>
            contact_params safe_div MJ_MINVAL MJ_MINMU m cp cpid cid w
              = contact_params safe_div MJ_MINVAL MJ_MINMU m cp cpid cid w') \<and>
         (aget cpid cid = Some pid \<longrightarrow> \<not> fst pid > - 1 \<longrightarrow>
            contact_params safe_div MJ_MINVAL MJ_MINMU m cp cpid cid w
              = Some (pair, mg, gp, cd, fr, sr, srf, si) \<longrightarrow>
            (\<exists>solmix1 solmix2 p1 p2 solref1 solref2 solimp1 solimp2 m1 m2 g1 g2 mf mix.
               aget2 (geom_solmix m) (w mod shape0 (geom_solmix m)) (fst pair) = Some solmix1 \<and>
               aget2 (geom_solmix m) (w mod shape0 (geom_solmix m)) (snd pair) = Some solmix2 \<and>
               aget (geom_priority m) (fst pair) = Some p1 \<and>
               aget (geom_priority m) (snd pair) = Some p2 \<and>
               aget2 (geom_solref m) (w mod shape0 (geom_solref m)) (fst pair) = Some solref1 \<and>
               aget2 (geom_solref m) (w mod shape0 (geom_solref m)) (snd pair) = Some solref2 \<and>
               aget2 (geom_solimp m) (w mod shape0 (geom_solimp m)) (fst pair) = Some solimp1 \<and>
               aget2 (geom_solimp m) (w mod shape0 (geom_solimp m)) (snd pair) = Some solimp2 \<and>
               aget2 (geom_margin m) (w mod shape0 (geom_margin m)) (fst pair) = Some m1 \<and>
               aget2 (geom_margin m) (w mod shape0 (geom_margin m)) (snd pair) = Some m2 \<and>
               aget2 (geom_gap m) (w mod shape0 (geom_gap m)) (fst pair) = Some g1 \<and>
               aget2 (geom_gap m) (w mod shape0 (geom_gap m)) (snd pair) = Some g2 \<and>
               (p1 > p2 \<longrightarrow>
                  aget2 (geom_friction m) (w mod shape0 (geom_friction m)) (fst pair) = Some mf) \<and>
               (p2 > p1 \<longrightarrow>
                  aget2 (geom_friction m) (w mod shape0 (geom_friction m)) (snd pair) = Some mf) \<and>
               (p1 = p2 \<longrightarrow>
                  (\<exists>f1 f2.
                     aget2 (geom_friction m) (w mod shape0 (geom_friction m)) (fst pair)
                       = Some f1 \<and>
                     aget2 (geom_friction m) (w mod shape0 (geom_friction m)) (snd pair)
                       = Some f2 \<and>
                     mf = Vec3 (max (v3_0 f1) (v3_0 f2)) (max (v3_1 f1) (v3_1 f2))
                               (max (v3_2 f1) (v3_2 f2)))) \<and>
               mix = (if p1 > p2 then 1 else if p2 > p1 then 0
                      else if solmix1 \<ge> MJ_MINVAL \<and> solmix2 < MJ_MINVAL then 1
                      else if solmix1 < MJ_MINVAL \<and> solmix2 \<ge> MJ_MINVAL then 0
                      else if solmix1 < MJ_MINVAL \<and> solmix2 < MJ_MINVAL then 1 / 2
                      else safe_div solmix1 (solmix1 + solmix2)) \<and>
               fr = Vec5 (max MJ_MINMU (v3_0 mf)) (max MJ_MINMU (v3_0 mf))
                         (max MJ_MINMU (v3_1 mf))
                         (max MJ_MINMU (v3_2 mf)) (max MJ_MINMU (v3_2 mf)) \<and>
               sr = (if v2_0 solref1 > 0 \<and> v2_0 solref2 > 0
                     then Vec2 (mix * v2_0 solref1 + (1 - mix) * v2_0 solref2)
                               (mix * v2_1 solref1 + (1 - mix) * v2_1 solref2)
                     else Vec2 (min (v2_0 solref1) (v2_0 solref2))
                               (min (v2_1 solref1) (v2_1 solref2))) \<and>
               si = Vec5 (mix * v5_0 solimp1 + (1 - mix) * v5_0 solimp2)
                         (mix * v5_1 solimp1 + (1 - mix) * v5_1 solimp2)
                         (mix * v5_2 solimp1 + (1 - mix) * v5_2 solimp2)
                         (mix * v5_3 solimp1 + (1 - mix) * v5_3 solimp2)
                         (mix * v5_4 solimp1 + (1 - mix) * v5_4 solimp2) \<and>
               mg = m1 + m2 \<and> gp = g1 + g2))"
proof (intro conjI impI)
  assume g: "geom_collision_pair MESH m d geoms w = Some (geom1, geom2)"
  from geom_collision_pair_Some [OF g] obtain t1 t2 a1 a2 b1 b2 where
    a: "pose_fields m d w (fst geoms) Geom_init = Some a1"
       "pose_fields m d w (snd geoms) Geom_init = Some a2"
    and b: "mesh_fields MESH m t1 (fst geoms) a1 = Some b1"
       "mesh_fields MESH m t2 (snd geoms) a2 = Some b2"
    and e: "geom1 = b1\<lparr> index := - 1, margin := 0 \<rparr>" "geom2 = b2\<lparr> index := - 1, margin := 0 \<rparr>"
    by blast
  have p1: "pos geom1 = pos a1 \<and> rot geom1 = rot a1 \<and> size_g geom1 = size_g a1"
    using mesh_fields_pose [OF b(1)] e by simp
  have p2: "pos geom2 = pos a2 \<and> rot geom2 = rot a2 \<and> size_g geom2 = size_g a2"
    using mesh_fields_pose [OF b(2)] e by simp
  note r1 = pose_fields_reads [OF a(1)] and r2 = pose_fields_reads [OF a(2)]
  show "aget2 (geom_size m) (w mod shape0 (geom_size m)) (fst geoms) = Some (size_g geom1)"
    using r1 p1 by (simp add: wp_mod_nonneg [OF assms])
  show "aget2 (geom_size m) (w mod shape0 (geom_size m)) (snd geoms) = Some (size_g geom2)"
    using r2 p2 by (simp add: wp_mod_nonneg [OF assms])
  show "aget2 (geom_xpos_in d) w (fst geoms) = Some (pos geom1)" using r1 p1 by simp
  show "aget2 (geom_xmat_in d) w (fst geoms) = Some (rot geom1)" using r1 p1 by simp
  show "aget2 (geom_xpos_in d) w (snd geoms) = Some (pos geom2)" using r2 p2 by simp
  show "aget2 (geom_xmat_in d) w (snd geoms) = Some (rot geom2)" using r2 p2 by simp
next
  assume h: "aget cpid cid = Some pid" "\<not> fst pid > - 1" "0 \<le> w'"
    "w mod shape0 (geom_solmix m) = w' mod shape0 (geom_solmix m)"
    "w mod shape0 (geom_friction m) = w' mod shape0 (geom_friction m)"
    "w mod shape0 (geom_solref m) = w' mod shape0 (geom_solref m)"
    "w mod shape0 (geom_solimp m) = w' mod shape0 (geom_solimp m)"
    "w mod shape0 (geom_margin m) = w' mod shape0 (geom_margin m)"
    "w mod shape0 (geom_gap m) = w' mod shape0 (geom_gap m)"
  have "geom_params safe_div MJ_MINVAL m w x = geom_params safe_div MJ_MINVAL m w' x" for x
    unfolding geom_params_def using h(4-9)
    by (simp add: wp_mod_nonneg [OF assms] wp_mod_nonneg [OF h(3)])
  then show "contact_params safe_div MJ_MINVAL MJ_MINMU m cp cpid cid w
              = contact_params safe_div MJ_MINVAL MJ_MINMU m cp cpid cid w'"
    unfolding contact_params_def using h(1,2) by simp
next
  assume h: "aget cpid cid = Some pid" "\<not> fst pid > - 1"
    "contact_params safe_div MJ_MINVAL MJ_MINMU m cp cpid cid w
       = Some (pair, mg, gp, cd, fr, sr, srf, si)"
  from mixing_branch [OF h(3,1,2)] obtain fr0 where
    gp: "geom_params safe_div MJ_MINVAL m w pair = Some (mg, gp, cd, fr0, sr, srf, si)"
    and fr: "fr = floor_friction MJ_MINMU fr0" by blast
  note wm = wp_mod_nonneg [OF assms]
  from geom_params_Some [OF gp] obtain s1 s2 c1 c2 p1 p2 mix mf sr1 sr2 si1 si2 m1 m2 g1 g2
    where rs: "aget2 (geom_solmix m) (w mod shape0 (geom_solmix m)) (fst pair) = Some s1"
      "aget2 (geom_solmix m) (w mod shape0 (geom_solmix m)) (snd pair) = Some s2"
    and rp: "aget (geom_priority m) (fst pair) = Some p1"
      "aget (geom_priority m) (snd pair) = Some p2"
    and pm: "priority_mix safe_div MJ_MINVAL m (w mod shape0 (geom_friction m)) (fst pair)
        (snd pair) p1 p2 c1 c2 s1 s2 = Some (mix, cd, mf)"
    and fr0: "fr0 = expand_friction mf"
    and rr: "aget2 (geom_solref m) (w mod shape0 (geom_solref m)) (fst pair) = Some sr1"
      "aget2 (geom_solref m) (w mod shape0 (geom_solref m)) (snd pair) = Some sr2"
    and sr: "sr = (if v2_0 sr1 > 0 \<and> v2_0 sr2 > 0
           then add_vec2 (scale_vec2 mix sr1) (scale_vec2 (1 - mix) sr2)
           else min_vec2 sr1 sr2)"
    and ri: "aget2 (geom_solimp m) (w mod shape0 (geom_solimp m)) (fst pair) = Some si1"
      "aget2 (geom_solimp m) (w mod shape0 (geom_solimp m)) (snd pair) = Some si2"
    and si: "si = add_vec5 (scale_vec5 mix si1) (scale_vec5 (1 - mix) si2)"
    and rm: "aget2 (geom_margin m) (w mod shape0 (geom_margin m)) (fst pair) = Some m1"
      "aget2 (geom_margin m) (w mod shape0 (geom_margin m)) (snd pair) = Some m2"
    and rg: "aget2 (geom_gap m) (w mod shape0 (geom_gap m)) (fst pair) = Some g1"
      "aget2 (geom_gap m) (w mod shape0 (geom_gap m)) (snd pair) = Some g2"
    and sums: "mg = m1 + m2" "gp = g1 + g2"
    unfolding wm by blast
  note pc = priority_mix_cases [OF pm]
  have f1: "p1 > p2 \<longrightarrow>
      aget2 (geom_friction m) (w mod shape0 (geom_friction m)) (fst pair) = Some mf"
    using pc by simp
  have f2: "p2 > p1 \<longrightarrow>
      aget2 (geom_friction m) (w mod shape0 (geom_friction m)) (snd pair) = Some mf"
    using pc by simp
  have f3: "p1 = p2 \<longrightarrow>
      (\<exists>f1 f2.
         aget2 (geom_friction m) (w mod shape0 (geom_friction m)) (fst pair) = Some f1 \<and>
         aget2 (geom_friction m) (w mod shape0 (geom_friction m)) (snd pair) = Some f2 \<and>
         mf = Vec3 (max (v3_0 f1) (v3_0 f2)) (max (v3_1 f1) (v3_1 f2))
                   (max (v3_2 f1) (v3_2 f2)))"
    using pc unfolding max_vec3_def by simp
  have mx: "mix = (if p1 > p2 then 1 else if p2 > p1 then 0
                      else if s1 \<ge> MJ_MINVAL \<and> s2 < MJ_MINVAL then 1
                      else if s1 < MJ_MINVAL \<and> s2 \<ge> MJ_MINVAL then 0
                      else if s1 < MJ_MINVAL \<and> s2 < MJ_MINVAL then 1 / 2
                      else safe_div s1 (s1 + s2))"
    using priority_mix_weight [OF pm] solmix_weight_chain [of safe_div MJ_MINVAL s1 s2]
    by simp
  have fr': "fr = Vec5 (max MJ_MINMU (v3_0 mf)) (max MJ_MINMU (v3_0 mf))
                         (max MJ_MINMU (v3_1 mf))
                         (max MJ_MINMU (v3_2 mf)) (max MJ_MINMU (v3_2 mf))"
    using fr fr0 by (simp add: floor_friction_def expand_friction_def)
  have sr': "sr = (if v2_0 sr1 > 0 \<and> v2_0 sr2 > 0
                     then Vec2 (mix * v2_0 sr1 + (1 - mix) * v2_0 sr2)
                               (mix * v2_1 sr1 + (1 - mix) * v2_1 sr2)
                     else Vec2 (min (v2_0 sr1) (v2_0 sr2)) (min (v2_1 sr1) (v2_1 sr2)))"
    using sr by (simp add: add_vec2_def scale_vec2_def min_vec2_def)
  have si': "si = Vec5 (mix * v5_0 si1 + (1 - mix) * v5_0 si2)
                         (mix * v5_1 si1 + (1 - mix) * v5_1 si2)
                         (mix * v5_2 si1 + (1 - mix) * v5_2 si2)
                         (mix * v5_3 si1 + (1 - mix) * v5_3 si2)
                         (mix * v5_4 si1 + (1 - mix) * v5_4 si2)"
    using si by (simp add: add_vec5_def scale_vec5_def)
  show "\<exists>solmix1 solmix2 p1 p2 solref1 solref2 solimp1 solimp2 m1 m2 g1 g2 mf mix.
               aget2 (geom_solmix m) (w mod shape0 (geom_solmix m)) (fst pair) = Some solmix1 \<and>
               aget2 (geom_solmix m) (w mod shape0 (geom_solmix m)) (snd pair) = Some solmix2 \<and>
               aget (geom_priority m) (fst pair) = Some p1 \<and>
               aget (geom_priority m) (snd pair) = Some p2 \<and>
               aget2 (geom_solref m) (w mod shape0 (geom_solref m)) (fst pair) = Some solref1 \<and>
               aget2 (geom_solref m) (w mod shape0 (geom_solref m)) (snd pair) = Some solref2 \<and>
               aget2 (geom_solimp m) (w mod shape0 (geom_solimp m)) (fst pair) = Some solimp1 \<and>
               aget2 (geom_solimp m) (w mod shape0 (geom_solimp m)) (snd pair) = Some solimp2 \<and>
               aget2 (geom_margin m) (w mod shape0 (geom_margin m)) (fst pair) = Some m1 \<and>
               aget2 (geom_margin m) (w mod shape0 (geom_margin m)) (snd pair) = Some m2 \<and>
               aget2 (geom_gap m) (w mod shape0 (geom_gap m)) (fst pair) = Some g1 \<and>
               aget2 (geom_gap m) (w mod shape0 (geom_gap m)) (snd pair) = Some g2 \<and>
               (p1 > p2 \<longrightarrow>
                  aget2 (geom_friction m) (w mod shape0 (geom_friction m)) (fst pair) = Some mf) \<and>
               (p2 > p1 \<longrightarrow>
                  aget2 (geom_friction m) (w mod shape0 (geom_friction m)) (snd pair) = Some mf) \<and>
               (p1 = p2 \<longrightarrow>
                  (\<exists>f1 f2.
                     aget2 (geom_friction m) (w mod shape0 (geom_friction m)) (fst pair)
                       = Some f1 \<and>
                     aget2 (geom_friction m) (w mod shape0 (geom_friction m)) (snd pair)
                       = Some f2 \<and>
                     mf = Vec3 (max (v3_0 f1) (v3_0 f2)) (max (v3_1 f1) (v3_1 f2))
                               (max (v3_2 f1) (v3_2 f2)))) \<and>
               mix = (if p1 > p2 then 1 else if p2 > p1 then 0
                      else if solmix1 \<ge> MJ_MINVAL \<and> solmix2 < MJ_MINVAL then 1
                      else if solmix1 < MJ_MINVAL \<and> solmix2 \<ge> MJ_MINVAL then 0
                      else if solmix1 < MJ_MINVAL \<and> solmix2 < MJ_MINVAL then 1 / 2
                      else safe_div solmix1 (solmix1 + solmix2)) \<and>
               fr = Vec5 (max MJ_MINMU (v3_0 mf)) (max MJ_MINMU (v3_0 mf))
                         (max MJ_MINMU (v3_1 mf))
                         (max MJ_MINMU (v3_2 mf)) (max MJ_MINMU (v3_2 mf)) \<and>
               sr = (if v2_0 solref1 > 0 \<and> v2_0 solref2 > 0
                     then Vec2 (mix * v2_0 solref1 + (1 - mix) * v2_0 solref2)
                               (mix * v2_1 solref1 + (1 - mix) * v2_1 solref2)
                     else Vec2 (min (v2_0 solref1) (v2_0 solref2))
                               (min (v2_1 solref1) (v2_1 solref2))) \<and>
               si = Vec5 (mix * v5_0 solimp1 + (1 - mix) * v5_0 solimp2)
                         (mix * v5_1 solimp1 + (1 - mix) * v5_1 solimp2)
                         (mix * v5_2 solimp1 + (1 - mix) * v5_2 solimp2)
                         (mix * v5_3 solimp1 + (1 - mix) * v5_3 solimp2)
                         (mix * v5_4 solimp1 + (1 - mix) * v5_4 solimp2) \<and>
               mg = m1 + m2 \<and> gp = g1 + g2"
    by (intro exI conjI) (rule rs rp rr ri rm rg f1 f2 f3 mx fr' sr' si' sums)+
qed

lemma ex_b_views:
  "\<exists>geom1 geom2. geom_collision_pair 7 ex_model_b ex_data (0, 1) 1 = Some (geom1, geom2)"
  by (simp add: geom_collision_pair_def pose_fields_def mesh_fields_def read_defs ex_defs
      ex_b_defs)

text \<open>
  In world 1, with poses of two rows. The first example, with model arrays of a single
  row: the size of the sphere is that of row 0, its position that of row 1, and the
  mixed parameters of the two meshes are those of world 0. The second example, with
  model arrays of two rows: the sizes are those of row 1, and the mixed parameters of
  the two meshes are computed from the entries of row 1 (the margin \<open>1/2\<close> is
  \<open>1/5 + 3/10\<close>); in world 0 they are computed from row 0.
\<close>

theorem world_row_indexing_witness:
  "(case geom_collision_pair 7 ex_model ex_data (0, 1) 1 of
      None \<Rightarrow> False
    | Some (geom1, geom2) \<Rightarrow> size_g geom1 = Vec3 1 0 0 \<and> pos geom1 = Vec3 0 0 5) \<and>
   contact_params ex_safe_div ex_minval ex_minmu ex_model ex_pairs ex_pairids 1 1
     = contact_params ex_safe_div ex_minval ex_minmu ex_model ex_pairs ex_pairids 1 0 \<and>
   (case geom_collision_pair 7 ex_model_b ex_data (0, 1) 1 of
      None \<Rightarrow> False
    | Some (geom1, geom2) \<Rightarrow>
        size_g geom1 = Vec3 4 0 0 \<and> size_g geom2 = Vec3 5 5 5 \<and> pos geom1 = Vec3 0 0 5) \<and>
   contact_params ex_safe_div ex_minval ex_minmu ex_model_b ex_pairs_b ex_pairids_b 1 1
     = Some ((1, 2), 1 / 2, 3 / 50, 4,
             Vec5 (7 / 10) (7 / 10) (1 / 100) (1 / 10000) (1 / 10000),
             Vec2 (17 / 200) (5 / 4), Vec2 0 0, Vec5 (3 / 5) (4 / 5) (31 / 4000) (1 / 2) 5) \<and>
   contact_params ex_safe_div ex_minval ex_minmu ex_model_b ex_pairs_b ex_pairids_b 1 0
     = Some ((1, 2), 3 / 100, 1 / 100, 4, Vec5 1 1 (1 / 100) (1 / 10000) (1 / 10000),
             Vec2 0 1, Vec2 0 0, Vec5 3 3 3 3 2) \<and>
   aget2 (geom_margin ex_model_b) (1 mod shape0 (geom_margin ex_model_b)) 1 = Some (1 / 5) \<and>
   aget2 (geom_margin ex_model_b) (1 mod shape0 (geom_margin ex_model_b)) 2 = Some (3 / 10) \<and>
   (1 / 2 :: real) = 1 / 5 + 3 / 10"
proof -
  from ex_views_sphere obtain geom1 geom2 where
    g: "geom_collision_pair 7 ex_model ex_data (0, 1) 1 = Some (geom1, geom2)" by blast
  have v: "size_g geom1 = Vec3 1 0 0 \<and> pos geom1 = Vec3 0 0 5"
    using world_row_indexing [where w = 1 and MESH = 7 and m = ex_model and d = ex_data
        and geoms = "(0, 1)" and ?geom1.0 = geom1 and ?geom2.0 = geom2] g
    by (simp add: shape0_def aget_def aget2_def ex_defs)
  have c: "contact_params ex_safe_div ex_minval ex_minmu ex_model ex_pairs ex_pairids 1 1
     = contact_params ex_safe_div ex_minval ex_minmu ex_model ex_pairs ex_pairids 1 0"
    using world_row_indexing [where w = 1 and w' = 0 and m = ex_model and cpid = ex_pairids
        and cid = 1 and pid = "(- 1, - 1)" and cp = ex_pairs and safe_div = ex_safe_div
        and MJ_MINVAL = ex_minval and MJ_MINMU = ex_minmu] ex_material(2)
    by (simp add: shape0_def ex_model_def)
  from ex_b_views obtain geom1b geom2b where
    gb: "geom_collision_pair 7 ex_model_b ex_data (0, 1) 1 = Some (geom1b, geom2b)" by blast
  have vb: "size_g geom1b = Vec3 4 0 0 \<and> size_g geom2b = Vec3 5 5 5 \<and>
            pos geom1b = Vec3 0 0 5"
    using world_row_indexing [where w = 1 and MESH = 7 and m = ex_model_b and d = ex_data
        and geoms = "(0, 1)" and ?geom1.0 = geom1b and ?geom2.0 = geom2b] gb
    by (simp add: shape0_def aget_def aget2_def ex_defs ex_b_defs)
  have w1: "(0 :: int) \<le> 1" by simp
  have np: "\<not> fst (- 1 :: int, - 1 :: int) > - 1" by simp
  note rows = world_row_indexing [where w = 1 and m = ex_model_b, THEN conjunct2,
      THEN conjunct2, rule_format, OF w1 ex_b_material(2) np ex_b_equal]
  from rows obtain m1 m2 where
    r1: "aget2 (geom_margin ex_model_b) (1 mod shape0 (geom_margin ex_model_b))
           (fst (1 :: int, 2 :: int)) = Some m1"
    and r2: "aget2 (geom_margin ex_model_b) (1 mod shape0 (geom_margin ex_model_b))
           (snd (1 :: int, 2 :: int)) = Some m2"
    and s: "(1 / 2 :: real) = m1 + m2"
    by (elim exE conjE) (rule that, assumption+)
  have e1: "aget2 (geom_margin ex_model_b) (1 mod shape0 (geom_margin ex_model_b)) 1
              = Some (1 / 5)"
    and e2: "aget2 (geom_margin ex_model_b) (1 mod shape0 (geom_margin ex_model_b)) 2
              = Some (3 / 10)"
    by (simp_all add: shape0_def aget_def aget2_def ex_defs ex_b_defs)
  have m: "m1 = 1 / 5" "m2 = 3 / 10" using r1 r2 e1 e2 by simp_all
  have sum: "(1 / 2 :: real) = 1 / 5 + 3 / 10" using s m by simp
  have cg: "case geom_collision_pair 7 ex_model ex_data (0, 1) 1 of
      None \<Rightarrow> False
    | Some (geom1, geom2) \<Rightarrow> size_g geom1 = Vec3 1 0 0 \<and> pos geom1 = Vec3 0 0 5"
    using g v by simp
  have cgb: "case geom_collision_pair 7 ex_model_b ex_data (0, 1) 1 of
      None \<Rightarrow> False
    | Some (geom1, geom2) \<Rightarrow>
        size_g geom1 = Vec3 4 0 0 \<and> size_g geom2 = Vec3 5 5 5 \<and> pos geom1 = Vec3 0 0 5"
    using gb vb by simp
  show ?thesis
    by (intro conjI) (rule cg c cgb ex_b_equal ex_b_equal_world0 e1 e2 sum)+
qed

end
